theory Spec2Isabelle
  imports Complex_Main "HOL-Library.Multiset"
begin

section \<open>Python values used by the network code\<close>

text \<open>
  The exceptions the modelled code can raise. \<open>InvalidNeuralNetwork\<close> is the class of
  \<^verbatim>\<open>neural_exception.py\<close>; the others are Python built-ins.
\<close>

datatype py_error =
    ValueError
  | IndexError
  | TypeError
  | KeyError
  | ZeroDivisionError
  | UnboundLocalError
  | InvalidNeuralNetwork

text \<open>
  A NumPy array of dimension at most two. \<open>Mat c rows\<close> is a two-dimensional array of
  shape \<open>(length rows, c)\<close>; the column count is kept because it is part of the shape
  also when there is no row. The scalars are the elements of an arbitrary semiring:
  rounding of floating-point arithmetic is not modelled. The Python number \<open>0\<close> that the
  constructor stores in \<open>net\<close> and \<open>inputs\<close> is \<open>Scalar 0\<close>.
\<close>

datatype 'a ndarray = Scalar 'a | Vec "'a list" | Mat nat "'a list list"

fun wf_ndarray :: "'a ndarray \<Rightarrow> bool" where
  "wf_ndarray (Mat c rows) = list_all (\<lambda>r. length r = c) rows"
| "wf_ndarray (Vec xs) = True"
| "wf_ndarray (Scalar a) = True"

fun np_shape :: "'a ndarray \<Rightarrow> nat list" where
  "np_shape (Scalar a) = []"
| "np_shape (Vec xs) = [length xs]"
| "np_shape (Mat c rows) = [length rows, c]"

fun np_transpose :: "'a ndarray \<Rightarrow> 'a ndarray" where
  "np_transpose (Mat c rows) = Mat (length rows) (map (\<lambda>j. map (\<lambda>r. r ! j) rows) [0..<c])"
| "np_transpose (Vec xs) = Vec xs"
| "np_transpose (Scalar a) = Scalar a"

text \<open>The rows of a matrix.\<close>

fun mat_rows :: "'a ndarray \<Rightarrow> 'a list list" where
  "mat_rows (Mat c rows) = rows"
| "mat_rows (Vec xs) = []"
| "mat_rows (Scalar a) = []"

text \<open>\<^verbatim>\<open>np.matmul\<close>: entry \<open>(i, j)\<close> of the product is \<open>\<Sum>k. A[i][k] * B[k][j]\<close>.\<close>

fun np_matmul :: "'a::semiring_0 ndarray \<Rightarrow> 'a ndarray \<Rightarrow> py_error + 'a ndarray" where
  "np_matmul (Mat ca A) (Mat cb B) =
     (if ca = length B
      then Inr (Mat cb (map (\<lambda>a. map (\<lambda>j. (\<Sum>k\<leftarrow>[0..<ca]. a ! k * B ! k ! j)) [0..<cb]) A))
      else Inl ValueError)"
| "np_matmul (Mat ca A) (Vec v) =
     (if ca = length v
      then Inr (Vec (map (\<lambda>a. (\<Sum>k\<leftarrow>[0..<ca]. a ! k * v ! k)) A))
      else Inl ValueError)"
| "np_matmul (Vec u) (Mat cb B) =
     (if length u = length B
      then Inr (Vec (map (\<lambda>j. (\<Sum>k\<leftarrow>[0..<length u]. u ! k * B ! k ! j)) [0..<cb]))
      else Inl ValueError)"
| "np_matmul (Vec u) (Vec v) =
     (if length u = length v
      then Inr (Scalar (\<Sum>k\<leftarrow>[0..<length u]. u ! k * v ! k))
      else Inl ValueError)"
| "np_matmul (Scalar a) y = Inl ValueError"
| "np_matmul x (Scalar b) = Inl ValueError"

section \<open>Layer\<close>

text \<open>
  The modules \<^verbatim>\<open>activation_function\<close> and \<^verbatim>\<open>learning_rate\<close> are not part of the
  sources: an activation function is a pair of array functions, and a learning-rate
  schedule is an object with a state, a \<open>value\<close> reader and an \<open>update\<close> mutator.
\<close>

record 'a ActivationFunction =
  act_output :: "'a ndarray \<Rightarrow> 'a ndarray"
  act_derivative :: "'a ndarray \<Rightarrow> 'a ndarray"

record ('a, 's) LearningRate =
  lr_state :: 's
  lr_value :: "'s \<Rightarrow> 'a ndarray"
  lr_update :: "'s \<Rightarrow> int \<Rightarrow> 's"

record ('a, 's) layer =
  weights :: "'a ndarray"
  transposedWeights :: "'a ndarray"
  learning_rates :: "('a, 's) LearningRate"
  activation :: "'a ActivationFunction"
  num_unit :: nat
  num_input :: int
  net :: "'a ndarray"
  errors :: "'a ndarray"
  inputs :: "'a ndarray"
  old_delta_w :: "'a ndarray"
  current_delta_w :: "'a ndarray"

text \<open>
  \<^verbatim>\<open>Layer.__init__\<close>. The contents of \<^verbatim>\<open>np.empty([num_unit])\<close> are whatever the
  memory holds: the parameter \<open>uninit\<close>. Unpacking \<^verbatim>\<open>weights.shape\<close> into two names
  raises \<open>ValueError\<close> unless the array is two-dimensional.
\<close>

definition Layer_init ::
  "(nat \<Rightarrow> 'a) \<Rightarrow> 'a::zero ndarray \<Rightarrow> ('a, 's) LearningRate \<Rightarrow> 'a ActivationFunction
    \<Rightarrow> py_error + ('a, 's) layer" where
  "Layer_init uninit w lr act =
     (if np_shape w \<noteq> np_shape (lr_value lr (lr_state lr)) then Inl ValueError
      else case w of
        Mat c rows \<Rightarrow>
          Inr \<lparr> weights = w,
                transposedWeights = np_transpose w,
                learning_rates = lr,
                activation = act,
                num_unit = length rows,
                num_input = int c - 1,
                net = Scalar 0,
                errors = Vec (map uninit [0..<length rows]),
                inputs = Scalar 0,
                old_delta_w = Mat c (replicate (length rows) (replicate c 0)),
                current_delta_w = Mat c (replicate (length rows) (replicate c 0)) \<rparr>
      | Vec xs \<Rightarrow> Inl ValueError
      | Scalar a \<Rightarrow> Inl ValueError)"

definition update_learning_rate :: "('a, 's) layer \<Rightarrow> int \<Rightarrow> ('a, 's) layer" where
  "update_learning_rate self epoch =
     self\<lparr>learning_rates :=
       (learning_rates self)\<lparr>lr_state :=
         lr_update (learning_rates self) (lr_state (learning_rates self)) epoch\<rparr>\<rparr>"

text \<open>
  \<^verbatim>\<open>Layer.function_signal\<close>. The result is the raised exception or the returned
  array, together with the layer as the call leaves it. Reading \<^verbatim>\<open>shape[1]\<close> of an
  array with fewer than two dimensions raises \<open>IndexError\<close>.
\<close>

definition function_signal ::
  "('a::semiring_1, 's) layer \<Rightarrow> 'a ndarray \<Rightarrow> (py_error + 'a ndarray) \<times> ('a, 's) layer" where
  "function_signal self input_values =
     (case input_values of
        Mat c rows \<Rightarrow>
          if int c \<noteq> num_input self then (Inl ValueError, self)
          else
            let input_values1 = Mat (Suc c) (map (\<lambda>r. 1 # r) rows);
                self1 = self\<lparr>inputs := input_values1\<rparr>
            in (case np_matmul input_values1 (transposedWeights self1) of
                  Inl e \<Rightarrow> (Inl e, self1)
                | Inr n \<Rightarrow>
                    let self2 = self1\<lparr>net := n\<rparr>
                    in (Inr (act_output (activation self2) (net self2)), self2))
      | Vec xs \<Rightarrow> (Inl IndexError, self)
      | Scalar a \<Rightarrow> (Inl IndexError, self))"

text \<open>
  What the constructor establishes and every method of the layer keeps: the weights are a
  rectangular matrix, \<open>transposedWeights\<close> is its transpose (in NumPy a view of the same
  storage), and the two counts are read off its shape.
\<close>

definition layer_inv :: "('a, 's) layer \<Rightarrow> bool" where
  "layer_inv self =
     (case weights self of
        Mat c rows \<Rightarrow>
          list_all (\<lambda>r. length r = c) rows \<and>
          transposedWeights self = np_transpose (weights self) \<and>
          num_unit self = length rows \<and>
          num_input self = int c - 1
      | Vec xs \<Rightarrow> False
      | Scalar a \<Rightarrow> False)"

text \<open>
  \<^verbatim>\<open>np.multiply\<close> (and \<^verbatim>\<open>*\<close> on arrays) with NumPy's broadcasting: both operands are
  read as two-dimensional (a scalar as \<open>1 \<times> 1\<close>, a vector as one row), a dimension of size
  one is stretched to the other operand's size, and any other disagreement raises
  \<open>ValueError\<close>. The result has the larger of the two dimension counts.
\<close>

fun promote2 :: "'a ndarray \<Rightarrow> nat \<times> nat \<times> 'a list list" where
  "promote2 (Scalar a) = (1, 1, [[a]])"
| "promote2 (Vec xs) = (1, length xs, [xs])"
| "promote2 (Mat c rows) = (length rows, c, rows)"

fun np_ndim :: "'a ndarray \<Rightarrow> nat" where
  "np_ndim (Scalar a) = 0"
| "np_ndim (Vec xs) = 1"
| "np_ndim (Mat c rows) = 2"

definition broadcast_dim :: "nat \<Rightarrow> nat \<Rightarrow> nat option" where
  "broadcast_dim m n =
     (if m = n then Some m else if m = 1 then Some n else if n = 1 then Some m else None)"

definition bidx :: "nat \<Rightarrow> nat \<Rightarrow> nat" where
  "bidx n i = (if n = 1 then 0 else i)"

definition demote :: "nat \<Rightarrow> nat \<Rightarrow> 'a list list \<Rightarrow> 'a ndarray" where
  "demote nd c Z = (if nd = 0 then Scalar (hd (hd Z)) else if nd = 1 then Vec (hd Z) else Mat c Z)"

definition np_multiply :: "'a::times ndarray \<Rightarrow> 'a ndarray \<Rightarrow> py_error + 'a ndarray" where
  "np_multiply x y =
     (case (promote2 x, promote2 y) of
        ((rx, cx, X), (ry, cy, Y)) \<Rightarrow>
          (case (broadcast_dim rx ry, broadcast_dim cx cy) of
             (Some r, Some c) \<Rightarrow>
               Inr (demote (max (np_ndim x) (np_ndim y)) c
                     (map (\<lambda>i. map (\<lambda>j. X ! bidx rx i ! bidx cx j * Y ! bidx ry i ! bidx cy j)
                                 [0..<c]) [0..<r]))
           | _ \<Rightarrow> Inl ValueError))"

text \<open>
  Iterating an array, as \<^verbatim>\<open>zip\<close> does with each argument when it is called: a
  matrix yields its rows, a vector its elements, and a number cannot be iterated.
\<close>

fun py_iter :: "'a ndarray \<Rightarrow> py_error + 'a ndarray list" where
  "py_iter (Scalar a) = Inl TypeError"
| "py_iter (Vec xs) = Inr (map Scalar xs)"
| "py_iter (Mat c rows) = Inr (map Vec rows)"

definition py_zip :: "'a ndarray \<Rightarrow> 'a ndarray \<Rightarrow> py_error + ('a ndarray \<times> 'a ndarray) list" where
  "py_zip x y =
     (case py_iter x of
        Inl e \<Rightarrow> Inl e
      | Inr xs \<Rightarrow> (case py_iter y of Inl e \<Rightarrow> Inl e | Inr ys \<Rightarrow> Inr (zip xs ys)))"

text \<open>\<^verbatim>\<open>np.einsum('i,j', error, input)\<close>: the outer product of two vectors.\<close>

fun np_einsum_i_j :: "'a::times ndarray \<Rightarrow> 'a ndarray \<Rightarrow> py_error + 'a ndarray" where
  "np_einsum_i_j (Vec e) (Vec x) = Inr (Mat (length x) (map (\<lambda>a. map (\<lambda>b. a * b) x) e))"
| "np_einsum_i_j (Scalar a) y = Inl ValueError"
| "np_einsum_i_j (Mat c rows) y = Inl ValueError"
| "np_einsum_i_j x (Scalar b) = Inl ValueError"
| "np_einsum_i_j x (Mat c rows) = Inl ValueError"

text \<open>The list comprehension over the zipped rows; the first exception ends it.\<close>

fun einsum_each :: "('a::times ndarray \<times> 'a ndarray) list \<Rightarrow> py_error + 'a ndarray list" where
  "einsum_each [] = Inr []"
| "einsum_each ((error, input) # ps) =
     (case np_einsum_i_j error input of
        Inl e \<Rightarrow> Inl e
      | Inr m \<Rightarrow> (case einsum_each ps of Inl e \<Rightarrow> Inl e | Inr ms \<Rightarrow> Inr (m # ms)))"

text \<open>
  \<^verbatim>\<open>np.sum(ms, axis=0)\<close> for a list of matrices: of the empty list it is the number
  \<open>0.0\<close>; of matrices of one shape it is their entrywise sum. Lists of any other kind do
  not come out of \<open>einsum_each\<close>; NumPy refuses a ragged list with \<open>ValueError\<close>.
\<close>

fun np_sum_axis0 :: "'a::monoid_add ndarray list \<Rightarrow> py_error + 'a ndarray" where
  "np_sum_axis0 [] = Inr (Scalar 0)"
| "np_sum_axis0 (Mat c A # ms) =
     (if list_all (\<lambda>m. np_shape m = [length A, c]) ms
      then Inr (Mat c (map (\<lambda>i. map (\<lambda>j. (\<Sum>m\<leftarrow>Mat c A # ms. mat_rows m ! i ! j)) [0..<c])
                         [0..<length A]))
      else Inl ValueError)"
| "np_sum_axis0 (Vec xs # ms) = Inl ValueError"
| "np_sum_axis0 (Scalar a # ms) = Inl ValueError"

text \<open>\<^verbatim>\<open>a[0:, 1:]\<close>: all rows, without the first column.\<close>

fun np_slice_from_col1 :: "'a ndarray \<Rightarrow> py_error + 'a ndarray" where
  "np_slice_from_col1 (Mat c rows) = Inr (Mat (c - 1) (map (drop 1) rows))"
| "np_slice_from_col1 (Vec xs) = Inl IndexError"
| "np_slice_from_col1 (Scalar a) = Inl IndexError"

text \<open>
  The module \<^verbatim>\<open>loss\<close> is not part of the sources: a loss is a pair of functions of
  the predicted and the target arrays.
\<close>

record 'a Loss =
  loss_fn :: "'a ndarray \<Rightarrow> 'a ndarray \<Rightarrow> 'a"
  loss_derivative :: "'a ndarray \<Rightarrow> 'a ndarray \<Rightarrow> 'a ndarray"

text \<open>
  The last statement of both \<^verbatim>\<open>error_signal\<close> methods:
  \<^verbatim>\<open>self.current_delta_w = np.sum([np.einsum('i,j', error, input)
      for error, input in zip(self.errors, self.inputs)], axis=0)\<close>.
\<close>

definition accumulate_delta_w ::
  "('a::semiring_0, 's) layer \<Rightarrow> (py_error + unit) \<times> ('a, 's) layer" where
  "accumulate_delta_w self =
     (case py_zip (errors self) (inputs self) of
        Inl e \<Rightarrow> (Inl e, self)
      | Inr ps \<Rightarrow>
          (case einsum_each ps of
             Inl e \<Rightarrow> (Inl e, self)
           | Inr ms \<Rightarrow>
               (case np_sum_axis0 ms of
                  Inl e \<Rightarrow> (Inl e, self)
                | Inr s \<Rightarrow> (Inr (), self\<lparr>current_delta_w := s\<rparr>))))"

text \<open>\<^verbatim>\<open>OutputLayer.error_signal\<close>.\<close>

definition OutputLayer_error_signal ::
  "('a::semiring_0, 's) layer \<Rightarrow> 'a ndarray \<Rightarrow> 'a ndarray \<Rightarrow> 'a Loss
    \<Rightarrow> (py_error + unit) \<times> ('a, 's) layer" where
  "OutputLayer_error_signal self targets outputs loss =
     (let difference = loss_derivative loss outputs targets
      in case np_multiply (act_derivative (activation self) (net self)) difference of
           Inl e \<Rightarrow> (Inl e, self)
         | Inr es \<Rightarrow> accumulate_delta_w (self\<lparr>errors := es\<rparr>))"

text \<open>\<^verbatim>\<open>HiddenLayer.error_signal\<close>.\<close>

definition HiddenLayer_error_signal ::
  "('a::semiring_0, 's) layer \<Rightarrow> 'a ndarray \<Rightarrow> 'a ndarray
    \<Rightarrow> (py_error + unit) \<times> ('a, 's) layer" where
  "HiddenLayer_error_signal self downStreamErrors downStreamWeights =
     (let d = act_derivative (activation self) (net self)
      in case np_slice_from_col1 downStreamWeights of
           Inl e \<Rightarrow> (Inl e, self)
         | Inr w1 \<Rightarrow>
             (case np_matmul downStreamErrors w1 of
                Inl e \<Rightarrow> (Inl e, self)
              | Inr m \<Rightarrow>
                  (case np_multiply d m of
                     Inl e \<Rightarrow> (Inl e, self)
                   | Inr es \<Rightarrow> accumulate_delta_w (self\<lparr>errors := es\<rparr>))))"

section \<open>NeuralNetwork\<close>

record ('a, 's) NeuralNetwork =
  max_epochs :: int
  input_dimension :: int
  output_dimension :: int
  optimizer :: string
  batch_size :: int
  layers :: "('a, 's) layer list"
  momentum_rate :: 'a
  regularization_rate :: 'a
  metric :: string
  loss :: string
  topology :: "int list"

text \<open>A training, validation or test sample: the pair of an input and a target vector.\<close>

type_synonym 'a sample = "'a list \<times> 'a list"

text \<open>
  The modules \<^verbatim>\<open>loss\<close>, \<^verbatim>\<open>metric\<close> and \<^verbatim>\<open>optimizer\<close> are not part of the sources.
  Their dictionaries are parameters of the model, and so is the permutation that
  \<^verbatim>\<open>np.random.shuffle\<close> draws from the state \<open>'g\<close> of NumPy's generator. An entry of
  \<open>optimizer_implemented\<close> stands for \<^verbatim>\<open>optimizer_implemented[name]()._back_propagation\<close>:
  it receives the network, the window, the batch ratio and the loss, and may change the
  network or raise. \<open>loss_of_lists\<close> is the loss called with two Python lists, as \<open>fit\<close>
  calls it for the test samples.
\<close>

type_synonym ('a, 's) back_propagation =
  "('a, 's) NeuralNetwork \<Rightarrow> 'a sample list \<Rightarrow> 'a \<Rightarrow> 'a Loss
    \<Rightarrow> (py_error + unit) \<times> ('a, 's) NeuralNetwork"

record ('a, 's, 'g) modules =
  loss_functions :: "string \<rightharpoonup> 'a Loss"
  loss_of_lists :: "'a Loss \<Rightarrow> 'a ndarray list \<Rightarrow> 'a list list \<Rightarrow> 'a"
  metric_functions :: "string \<rightharpoonup> ('a ndarray \<Rightarrow> 'a ndarray \<Rightarrow> 'a)"
  optimizer_implemented :: "string \<rightharpoonup> ('a, 's) back_propagation"
  random_shuffle :: "'g \<Rightarrow> 'a sample list \<Rightarrow> 'a sample list \<times> 'g"

text \<open>
  The \<open>check_\<close> methods of the constructor. A parameter that has the name of a field of
  the network is written with a prime.
\<close>

definition check_batch_size :: "string \<Rightarrow> int \<Rightarrow> py_error + int" where
  "check_batch_size self_optimizer batch_size' =
     (if self_optimizer = ''SGD'' \<and> batch_size' = 1 then Inr batch_size'
      else if batch_size' > 0 then Inr batch_size'
      else Inl InvalidNeuralNetwork)"

definition check_loss :: "('a, 's, 'g) modules \<Rightarrow> string \<Rightarrow> py_error + string" where
  "check_loss M loss' =
     (case loss_functions M loss' of Some f \<Rightarrow> Inr loss' | None \<Rightarrow> Inl InvalidNeuralNetwork)"

definition check_max_epochs :: "int \<Rightarrow> py_error + int" where
  "check_max_epochs max_epochs' =
     (if max_epochs' > 0 then Inr max_epochs' else Inl InvalidNeuralNetwork)"

definition check_metric :: "('a, 's, 'g) modules \<Rightarrow> string \<Rightarrow> py_error + string" where
  "check_metric M metric' =
     (if metric_functions M metric' \<noteq> None \<or> metric' = [] then Inr metric'
      else Inl InvalidNeuralNetwork)"

definition check_momentum :: "'a::{zero, linorder} \<Rightarrow> py_error + 'a" where
  "check_momentum momentum_rate' =
     (if momentum_rate' \<ge> 0 then Inr momentum_rate' else Inl InvalidNeuralNetwork)"

definition check_optimizer :: "('a, 's, 'g) modules \<Rightarrow> string \<Rightarrow> py_error + string" where
  "check_optimizer M optimizer' =
     (case optimizer_implemented M optimizer' of
        Some f \<Rightarrow> Inr optimizer'
      | None \<Rightarrow> Inl InvalidNeuralNetwork)"

definition check_regularization :: "'a::{zero, linorder} \<Rightarrow> py_error + 'a" where
  "check_regularization regularization_rate' =
     (if regularization_rate' \<ge> 0 then Inr regularization_rate' else Inl InvalidNeuralNetwork)"

text \<open>
  \<^verbatim>\<open>NeuralNetwork.__init__\<close>: the assignments in the order of the source; the first check
  that raises ends the construction and no network exists.
\<close>

definition NeuralNetwork_init ::
  "('a::{zero, linorder}, 's, 'g) modules \<Rightarrow> int \<Rightarrow> string \<Rightarrow> string \<Rightarrow> string \<Rightarrow> 'a \<Rightarrow> 'a \<Rightarrow> int
    \<Rightarrow> py_error + ('a, 's) NeuralNetwork" where
  "NeuralNetwork_init M max_epochs' optimizer' loss' metric' momentum_rate' regularization_rate' batch_size' =
     (case check_max_epochs max_epochs' of Inl e \<Rightarrow> Inl e | Inr v_max_epochs \<Rightarrow>
      case check_optimizer M optimizer' of Inl e \<Rightarrow> Inl e | Inr v_optimizer \<Rightarrow>
      case check_batch_size v_optimizer batch_size' of Inl e \<Rightarrow> Inl e | Inr v_batch_size \<Rightarrow>
      case check_momentum momentum_rate' of Inl e \<Rightarrow> Inl e | Inr v_momentum \<Rightarrow>
      case check_regularization regularization_rate' of Inl e \<Rightarrow> Inl e | Inr v_regularization \<Rightarrow>
      case check_metric M metric' of Inl e \<Rightarrow> Inl e | Inr v_metric \<Rightarrow>
      case check_loss M loss' of Inl e \<Rightarrow> Inl e | Inr v_loss \<Rightarrow>
        Inr \<lparr> max_epochs = v_max_epochs,
              input_dimension = 0,
              output_dimension = 0,
              optimizer = v_optimizer,
              batch_size = v_batch_size,
              layers = [],
              momentum_rate = v_momentum,
              regularization_rate = v_regularization,
              metric = v_metric,
              loss = v_loss,
              topology = [] \<rparr>)"

text \<open>
  \<^verbatim>\<open>NeuralNetwork.add_layer\<close>. The argument is any Python object; only an instance of
  \<^verbatim>\<open>Layer\<close> (or of a subclass) passes the first check.
\<close>

datatype ('a, 's) py_object = LayerObject "('a, 's) layer" | OtherObject

definition add_layer ::
  "('a, 's) NeuralNetwork \<Rightarrow> ('a, 's) py_object \<Rightarrow> (py_error + unit) \<times> ('a, 's) NeuralNetwork" where
  "add_layer self obj =
     (case obj of
        OtherObject \<Rightarrow> (Inl ValueError, self)
      | LayerObject layer \<Rightarrow>
          let append_layer = (\<lambda>self1.
                (Inr (), self1\<lparr>topology := topology self1 @ [int (num_unit layer)],
                               output_dimension := int (num_unit layer),
                               layers := layers self1 @ [layer]\<rparr>))
          in if length (layers self) = 0
             then append_layer (self\<lparr>input_dimension := num_input layer,
                                     topology := topology self @ [num_input layer]\<rparr>)
             else if num_input layer \<noteq> output_dimension self
             then (Inl ValueError, self)
             else append_layer self)"

text \<open>
  The loop of \<^verbatim>\<open>_feedward_signal\<close> over the layers: each layer's output is the next
  layer's input, and every layer keeps what \<open>function_signal\<close> stored in it.
\<close>

fun feed_layers ::
  "('a::semiring_1, 's) layer list \<Rightarrow> 'a ndarray \<Rightarrow> (py_error + 'a ndarray) \<times> ('a, 's) layer list" where
  "feed_layers [] input_layer = (Inr input_layer, [])"
| "feed_layers (layer # rest) input_layer =
     (case function_signal layer input_layer of
        (Inl e, layer1) \<Rightarrow> (Inl e, layer1 # rest)
      | (Inr output_layer, layer1) \<Rightarrow>
          (case feed_layers rest output_layer of
             (r, rest1) \<Rightarrow> (r, layer1 # rest1)))"

text \<open>
  \<^verbatim>\<open>_feedward_signal\<close>. With no layer the loop body never runs and the
  \<^verbatim>\<open>return output_layer\<close> reads a variable that was never bound.
\<close>

definition feedward_signal ::
  "('a::semiring_1, 's) NeuralNetwork \<Rightarrow> 'a ndarray
    \<Rightarrow> (py_error + 'a ndarray) \<times> ('a, 's) NeuralNetwork" where
  "feedward_signal self sample =
     (case sample of
        Mat c rows \<Rightarrow>
          if int c \<noteq> input_dimension self then (Inl ValueError, self)
          else if layers self = [] then (Inl UnboundLocalError, self)
          else (case feed_layers (layers self) sample of
                  (r, layers1) \<Rightarrow> (r, self\<lparr>layers := layers1\<rparr>))
      | Vec xs \<Rightarrow> (Inl IndexError, self)
      | Scalar a \<Rightarrow> (Inl IndexError, self))"

definition predict ::
  "('a::semiring_1, 's) NeuralNetwork \<Rightarrow> 'a ndarray
    \<Rightarrow> (py_error + 'a ndarray) \<times> ('a, 's) NeuralNetwork" where
  "predict self sample = feedward_signal self sample"

text \<open>
  What the constructor establishes and \<open>add_layer\<close> and \<open>predict\<close> keep: every layer is in
  the state its own methods keep, the input dimension is that of the first layer, the output
  dimension is the unit count of the last layer, and both are zero while there is no layer.
\<close>

definition network_inv :: "('a, 's) NeuralNetwork \<Rightarrow> bool" where
  "network_inv self =
     (list_all layer_inv (layers self) \<and>
      (if layers self = [] then input_dimension self = 0 \<and> output_dimension self = 0
       else input_dimension self = num_input (hd (layers self)) \<and>
            output_dimension self = int (num_unit (last (layers self)))))"

section \<open>Training\<close>

text \<open>
  Modelled from the spec: the class \<^verbatim>\<open>Report\<close> of the module \<^verbatim>\<open>report\<close>, which is not
  part of the sources. The spec describes it as per-epoch scalar series, keyed by the epoch
  index and append-only: training loss, training metric, validation loss, validation metric
  and test loss. Each \<open>add_\<close> method appends the pair of the epoch and the value.
\<close>

record 'a Report =
  report_max_epochs :: int
  report_min_error :: 'a
  training_error :: "(int \<times> 'a) list"
  training_accuracy :: "(int \<times> 'a) list"
  validation_error :: "(int \<times> 'a) list"
  validation_accuracy :: "(int \<times> 'a) list"
  test_error :: "(int \<times> 'a) list"

definition Report_init :: "int \<Rightarrow> 'a \<Rightarrow> 'a Report" where
  "Report_init n min_err =
     \<lparr> report_max_epochs = n, report_min_error = min_err, training_error = [],
       training_accuracy = [], validation_error = [], validation_accuracy = [],
       test_error = [] \<rparr>"

definition add_training_error :: "'a \<Rightarrow> int \<Rightarrow> 'a Report \<Rightarrow> 'a Report" where
  "add_training_error err epoch report =
     report\<lparr>training_error := training_error report @ [(epoch, err)]\<rparr>"

definition add_training_accuracy :: "'a \<Rightarrow> int \<Rightarrow> 'a Report \<Rightarrow> 'a Report" where
  "add_training_accuracy accuracy epoch report =
     report\<lparr>training_accuracy := training_accuracy report @ [(epoch, accuracy)]\<rparr>"

definition add_validation_error :: "'a \<Rightarrow> 'a \<Rightarrow> int \<Rightarrow> 'a Report \<Rightarrow> 'a Report" where
  "add_validation_error err validation_err epoch report =
     report\<lparr>validation_error := validation_error report @ [(epoch, validation_err)]\<rparr>"

definition add_validation_accuracy :: "'a \<Rightarrow> int \<Rightarrow> 'a Report \<Rightarrow> 'a Report" where
  "add_validation_accuracy accuracy epoch report =
     report\<lparr>validation_accuracy := validation_accuracy report @ [(epoch, accuracy)]\<rparr>"

definition add_test_error :: "'a \<Rightarrow> int \<Rightarrow> 'a Report \<Rightarrow> 'a Report" where
  "add_test_error err epoch report =
     report\<lparr>test_error := test_error report @ [(epoch, err)]\<rparr>"

text \<open>A Python slice \<^verbatim>\<open>xs[start:stop]\<close> with integer bounds.\<close>

definition py_slice :: "'x list \<Rightarrow> int \<Rightarrow> int \<Rightarrow> 'x list" where
  "py_slice xs start stop =
     (let n = int (length xs);
          lo = (if start < 0 then max (start + n) 0 else min start n);
          hi = (if stop < 0 then max (stop + n) 0 else min stop n)
      in take (nat (hi - lo)) (drop (nat lo) xs))"

text \<open>
  \<^verbatim>\<open>np.array\<close> of a list of vectors: a matrix when they have one length, and the
  empty vector for the empty list. A ragged list is refused with \<open>ValueError\<close> (NumPy
  from version 1.24 on; older versions warn and build an array of objects).
\<close>

definition np_array :: "'a list list \<Rightarrow> py_error + 'a ndarray" where
  "np_array rows =
     (case rows of
        [] \<Rightarrow> Inr (Vec [])
      | r # rs \<Rightarrow>
          if list_all (\<lambda>x. length x = length r) rs then Inr (Mat (length r) rows)
          else Inl ValueError)"

text \<open>
  What a call of \<open>fit\<close> changes: the network, the caller's list \<open>training_examples\<close>
  (shuffled in place), the state of NumPy's random generator, and the report being built.
\<close>

record ('a, 's, 'g) fit_state =
  st_self :: "('a, 's) NeuralNetwork"
  st_training_examples :: "'a sample list"
  st_random :: 'g
  st_report :: "'a Report"

text \<open>The local variables of \<open>fit\<close> that are assigned once, before the epoch loop.\<close>

record 'a fit_locals =
  num_window :: int
  inputs_training :: "'a ndarray"
  targets_training :: "'a ndarray"
  validation_arrays :: "('a ndarray \<times> 'a ndarray) option"
  test_samples :: "'a sample list option"
  batch_total_samples_ratio :: 'a
  min_error :: 'a

text \<open>
  The inner loop \<^verbatim>\<open>for index in range(0, num_window)\<close>: the window is sliced from the
  list as it is now, with the batch size the network has now.
\<close>

fun train_windows ::
  "('a, 's, 'g) modules \<Rightarrow> 'a fit_locals \<Rightarrow> int list \<Rightarrow> ('a, 's, 'g) fit_state
    \<Rightarrow> (py_error + unit) \<times> ('a, 's, 'g) fit_state" where
  "train_windows M lc [] st = (Inr (), st)"
| "train_windows M lc (index # rest) st =
     (let self = st_self st;
          window_examples = py_slice (st_training_examples st)
                              (index * batch_size self) ((index + 1) * batch_size self)
      in case optimizer_implemented M (optimizer self) of
           None \<Rightarrow> (Inl KeyError, st)
         | Some back_propagation \<Rightarrow>
             (case loss_functions M (loss self) of
                None \<Rightarrow> (Inl KeyError, st)
              | Some lf \<Rightarrow>
                  (case back_propagation self window_examples (batch_total_samples_ratio lc) lf of
                     (Inl e, self1) \<Rightarrow> (Inl e, st\<lparr>st_self := self1\<rparr>)
                   | (Inr u, self1) \<Rightarrow> train_windows M lc rest (st\<lparr>st_self := self1\<rparr>))))"

text \<open>The shuffle and the training of one epoch.\<close>

definition epoch_train ::
  "('a, 's, 'g) modules \<Rightarrow> 'a fit_locals \<Rightarrow> ('a, 's, 'g) fit_state
    \<Rightarrow> (py_error + unit) \<times> ('a, 's, 'g) fit_state" where
  "epoch_train M lc st =
     (case random_shuffle M (st_random st) (st_training_examples st) of
        (shuffled, g) \<Rightarrow>
          train_windows M lc (map int [0..<nat (num_window lc)])
            (st\<lparr>st_training_examples := shuffled, st_random := g\<rparr>))"

text \<open>
  The training error and accuracy of one epoch; the result is the value of the local
  variable \<open>error\<close>.
\<close>

definition epoch_training_error ::
  "('a::semiring_1, 's, 'g) modules \<Rightarrow> 'a fit_locals \<Rightarrow> int \<Rightarrow> ('a, 's, 'g) fit_state
    \<Rightarrow> (py_error + 'a) \<times> ('a, 's, 'g) fit_state" where
  "epoch_training_error M lc num_epochs st =
     (case predict (st_self st) (inputs_training lc) of
        (Inl e, self1) \<Rightarrow> (Inl e, st\<lparr>st_self := self1\<rparr>)
      | (Inr training_predicted, self1) \<Rightarrow>
          (case loss_functions M (loss self1) of
             None \<Rightarrow> (Inl KeyError, st\<lparr>st_self := self1\<rparr>)
           | Some lf \<Rightarrow>
               let err = loss_fn lf training_predicted (targets_training lc);
                   st1 = st\<lparr>st_self := self1,
                            st_report := add_training_error err num_epochs (st_report st)\<rparr>
               in if metric self1 \<noteq> []
                  then (case metric_functions M (metric self1) of
                          None \<Rightarrow> (Inl KeyError, st1)
                        | Some mf \<Rightarrow>
                            (Inr err,
                             st1\<lparr>st_report :=
                                   add_training_accuracy
                                     (mf training_predicted (targets_training lc)) num_epochs
                                     (st_report st1)\<rparr>))
                  else (Inr err, st1)))"

text \<open>The same for the validation set, when there is one.\<close>

definition epoch_validation ::
  "('a::semiring_1, 's, 'g) modules \<Rightarrow> 'a fit_locals \<Rightarrow> int \<Rightarrow> 'a \<Rightarrow> ('a, 's, 'g) fit_state
    \<Rightarrow> (py_error + unit) \<times> ('a, 's, 'g) fit_state" where
  "epoch_validation M lc num_epochs err st =
     (case validation_arrays lc of
        None \<Rightarrow> (Inr (), st)
      | Some (inputs_validation, targets_validation) \<Rightarrow>
          (case predict (st_self st) inputs_validation of
             (Inl e, self1) \<Rightarrow> (Inl e, st\<lparr>st_self := self1\<rparr>)
           | (Inr val_predicted, self1) \<Rightarrow>
               (case loss_functions M (loss self1) of
                  None \<Rightarrow> (Inl KeyError, st\<lparr>st_self := self1\<rparr>)
                | Some lf \<Rightarrow>
                    let validation_err = loss_fn lf val_predicted targets_validation;
                        st1 = st\<lparr>st_self := self1\<rparr>
                    in if metric self1 \<noteq> []
                       then (case metric_functions M (metric self1) of
                               None \<Rightarrow> (Inl KeyError, st1)
                             | Some mf \<Rightarrow>
                                 (Inr (),
                                  st1\<lparr>st_report :=
                                    add_validation_error err validation_err num_epochs
                                      (add_validation_accuracy
                                         (mf val_predicted targets_validation) num_epochs
                                         (st_report st1))\<rparr>))
                       else (Inr (),
                             st1\<lparr>st_report :=
                               add_validation_error err validation_err num_epochs
                                 (st_report st1)\<rparr>))))"

text \<open>
  The list comprehension \<^verbatim>\<open>[self.predict(test_example[0]) for test_example in
  test_samples]\<close>: \<open>predict\<close> is called with the input vector of each test sample.
\<close>

fun predict_each ::
  "('a::semiring_1, 's) NeuralNetwork \<Rightarrow> 'a list list
    \<Rightarrow> (py_error + 'a ndarray list) \<times> ('a, 's) NeuralNetwork" where
  "predict_each self [] = (Inr [], self)"
| "predict_each self (x # xs) =
     (case predict self (Vec x) of
        (Inl e, self1) \<Rightarrow> (Inl e, self1)
      | (Inr p, self1) \<Rightarrow>
          (case predict_each self1 xs of
             (Inl e, self2) \<Rightarrow> (Inl e, self2)
           | (Inr ps, self2) \<Rightarrow> (Inr (p # ps), self2)))"

definition epoch_test ::
  "('a::field, 's, 'g) modules \<Rightarrow> 'a fit_locals \<Rightarrow> int \<Rightarrow> ('a, 's, 'g) fit_state
    \<Rightarrow> (py_error + unit) \<times> ('a, 's, 'g) fit_state" where
  "epoch_test M lc num_epochs st =
     (case test_samples lc of
        None \<Rightarrow> (Inr (), st)
      | Some [] \<Rightarrow> (Inr (), st)
      | Some (t # ts) \<Rightarrow>
          (case loss_functions M (loss (st_self st)) of
             None \<Rightarrow> (Inl KeyError, st)
           | Some lf \<Rightarrow>
               (case predict_each (st_self st) (map fst (t # ts)) of
                  (Inl e, self1) \<Rightarrow> (Inl e, st\<lparr>st_self := self1\<rparr>)
                | (Inr ps, self1) \<Rightarrow>
                    let test_err = loss_of_lists M lf ps (map snd (t # ts))
                                     / of_nat (length (t # ts))
                    in (Inr (),
                        st\<lparr>st_self := self1,
                           st_report := add_test_error test_err num_epochs (st_report st)\<rparr>))))"

text \<open>
  The body of the epoch loop. It ends by raising, by \<^verbatim>\<open>break\<close>, or by going on to the
  next epoch.
\<close>

datatype loop_exit = Raise py_error | Break | Continue

definition fit_epoch ::
  "('a::linordered_field, 's, 'g) modules \<Rightarrow> 'a fit_locals \<Rightarrow> int \<Rightarrow> ('a, 's, 'g) fit_state
    \<Rightarrow> loop_exit \<times> ('a, 's, 'g) fit_state" where
  "fit_epoch M lc num_epochs st =
     (case epoch_train M lc st of
        (Inl e, st1) \<Rightarrow> (Raise e, st1)
      | (Inr u, st1) \<Rightarrow>
     (case epoch_training_error M lc num_epochs st1 of
        (Inl e, st2) \<Rightarrow> (Raise e, st2)
      | (Inr err, st2) \<Rightarrow>
     (case epoch_validation M lc num_epochs err st2 of
        (Inl e, st3) \<Rightarrow> (Raise e, st3)
      | (Inr u, st3) \<Rightarrow>
     (case epoch_test M lc num_epochs st3 of
        (Inl e, st4) \<Rightarrow> (Raise e, st4)
      | (Inr u, st4) \<Rightarrow>
          if err \<le> min_error lc then (Break, st4)
          else (Continue,
                st4\<lparr>st_self := (st_self st4)\<lparr>layers :=
                  map (\<lambda>layer. update_learning_rate layer num_epochs)
                      (layers (st_self st4))\<rparr>\<rparr>)))))"

text \<open>The loop \<^verbatim>\<open>for num_epochs in range(self.max_epochs)\<close>.\<close>

fun epoch_loop ::
  "('a::linordered_field, 's, 'g) modules \<Rightarrow> 'a fit_locals \<Rightarrow> int list \<Rightarrow> ('a, 's, 'g) fit_state
    \<Rightarrow> (py_error + unit) \<times> ('a, 's, 'g) fit_state" where
  "epoch_loop M lc [] st = (Inr (), st)"
| "epoch_loop M lc (num_epochs # rest) st =
     (case fit_epoch M lc num_epochs st of
        (Raise e, st1) \<Rightarrow> (Inl e, st1)
      | (Break, st1) \<Rightarrow> (Inr (), st1)
      | (Continue, st1) \<Rightarrow> epoch_loop M lc rest st1)"

text \<open>
  \<^verbatim>\<open>num_window = math.ceil(total_samples // self.batch_size)\<close>: the operator
  \<^verbatim>\<open>//\<close> is floor division, which raises on a zero divisor, and \<^verbatim>\<open>math.ceil\<close> of the
  integer it returns is that integer.
\<close>

definition compute_num_window :: "int \<Rightarrow> int \<Rightarrow> py_error + int" where
  "compute_num_window total_samples batch_size' =
     (if batch_size' = 0 then Inl ZeroDivisionError else Inr (total_samples div batch_size'))"

text \<open>
  The statements of \<open>fit\<close> before the epoch loop: the network with the batch size the
  loop will use, and the local variables, or the exception raised on the way. The optional
  arguments \<open>validation_samples\<close> and \<open>test_samples\<close> are tested for their truth value:
  \<open>None\<close> and the empty list are false.
\<close>

definition fit_setup ::
  "('a::linordered_field, 's) NeuralNetwork \<Rightarrow> 'a sample list \<Rightarrow> 'a sample list option
    \<Rightarrow> 'a sample list option \<Rightarrow> 'a
    \<Rightarrow> (py_error + 'a fit_locals) \<times> ('a, 's) NeuralNetwork" where
  "fit_setup self training_examples validation_samples test_samples' min_error' =
     (let total_samples = int (length training_examples);
          self1 = (if optimizer self = ''SGD'' then self\<lparr>batch_size := total_samples\<rparr> else self)
      in case compute_num_window total_samples (batch_size self1) of
           Inl e \<Rightarrow> (Inl e, self1)
         | Inr nw \<Rightarrow>
        (case np_array (map fst training_examples) of
           Inl e \<Rightarrow> (Inl e, self1)
         | Inr inputs_tr \<Rightarrow>
        (case np_array (map snd training_examples) of
           Inl e \<Rightarrow> (Inl e, self1)
         | Inr targets_tr \<Rightarrow>
        (case (case validation_samples of
                 None \<Rightarrow> Inr None
               | Some [] \<Rightarrow> Inr None
               | Some (v # vs) \<Rightarrow>
                   (case np_array (map fst (v # vs)) of
                      Inl e \<Rightarrow> Inl e
                    | Inr inputs_validation \<Rightarrow>
                        (case np_array (map snd (v # vs)) of
                           Inl e \<Rightarrow> Inl e
                         | Inr targets_validation \<Rightarrow>
                             Inr (Some (inputs_validation, targets_validation))))) of
           Inl e \<Rightarrow> (Inl e, self1)
         | Inr val \<Rightarrow>
             if total_samples = 0 then (Inl ZeroDivisionError, self1)
             else (Inr \<lparr> num_window = nw,
                         inputs_training = inputs_tr,
                         targets_training = targets_tr,
                         validation_arrays = val,
                         test_samples = test_samples',
                         batch_total_samples_ratio =
                           of_int (batch_size self1) / of_int total_samples,
                         min_error = min_error' \<rparr>, self1)))))"

text \<open>
  \<^verbatim>\<open>NeuralNetwork.fit\<close>. The result is the raised exception or the returned report,
  with the network, the caller's list and the random generator as the call leaves them.
\<close>

definition fit ::
  "('a::linordered_field, 's, 'g) modules \<Rightarrow> ('a, 's) NeuralNetwork \<Rightarrow> 'a sample list
    \<Rightarrow> 'a sample list option \<Rightarrow> 'a sample list option \<Rightarrow> 'a \<Rightarrow> 'g
    \<Rightarrow> (py_error + 'a Report) \<times> ('a, 's, 'g) fit_state" where
  "fit M self training_examples validation_samples test_samples' min_error' g =
     (let report = Report_init (max_epochs self) min_error'
      in case fit_setup self training_examples validation_samples test_samples' min_error' of
           (Inl e, self1) \<Rightarrow>
             (Inl e, \<lparr> st_self = self1, st_training_examples = training_examples,
                       st_random = g, st_report = report \<rparr>)
         | (Inr lc, self1) \<Rightarrow>
             (case epoch_loop M lc (map int [0..<nat (max_epochs self1)])
                     \<lparr> st_self = self1, st_training_examples = training_examples,
                       st_random = g, st_report = report \<rparr> of
                (Inl e, st) \<Rightarrow> (Inl e, st)
              | (Inr u, st) \<Rightarrow> (Inr (st_report st), st)))"

section \<open>Notions used in the statements\<close>

text \<open>The inner product used to state results entry by entry.\<close>

definition dot :: "'a::semiring_0 list \<Rightarrow> 'a list \<Rightarrow> 'a" where
  "dot xs ys = sum_list (map2 (*) xs ys)"

text \<open>Two layers that agree on what \<open>function_signal\<close> reads.\<close>

definition same_forward :: "('a, 's) layer \<Rightarrow> ('a, 't) layer \<Rightarrow> bool" where
  "same_forward l1 l2 =
     (transposedWeights l1 = transposedWeights l2 \<and> num_input l1 = num_input l2 \<and>
      activation l1 = activation l2)"

text \<open>
  The learning-rate schedules of the layers during \<open>fit\<close>, a schedule advanced by an epoch
  as \<open>update_learning_rate\<close> does it, and the two facts about the absent modules that the
  statements on \<open>fit\<close> name: an optimizer that leaves the schedules of the layers as they
  are, and a shuffle that returns a permutation of the list.
\<close>

definition schedules :: "('a, 's, 'g) fit_state \<Rightarrow> ('a, 's) LearningRate list" where
  "schedules st = map learning_rates (layers (st_self st))"

definition advance_schedule :: "int \<Rightarrow> ('a, 's) LearningRate \<Rightarrow> ('a, 's) LearningRate" where
  "advance_schedule epoch lr = lr\<lparr>lr_state := lr_update lr (lr_state lr) epoch\<rparr>"

definition optimizer_keeps_schedules :: "('a, 's, 'g) modules \<Rightarrow> bool" where
  "optimizer_keeps_schedules M =
     (\<forall>name bp self w r lf.
        optimizer_implemented M name = Some bp \<longrightarrow>
        map learning_rates (layers (snd (bp self w r lf))) = map learning_rates (layers self))"

definition shuffle_permutes :: "('a, 's, 'g) modules \<Rightarrow> bool" where
  "shuffle_permutes M = (\<forall>g xs. mset (fst (random_shuffle M g xs)) = mset xs)"

definition shuffle_step ::
  "('a, 's, 'g) modules \<Rightarrow> 'a sample list \<times> 'g \<Rightarrow> 'a sample list \<times> 'g" where
  "shuffle_step M = (\<lambda>(xs, g). random_shuffle M g xs)"

text \<open>
  What a run of the epoch loop over the epochs \<open>es\<close>, from the state \<open>st\<close> to the state \<open>st'\<close>
  without an exception, has appended to the recorded training losses, and what it has done
  to the schedules.
\<close>

definition epochs_summary ::
  "('a::linordered_field, 's, 'g) modules \<Rightarrow> 'a fit_locals \<Rightarrow> int list
    \<Rightarrow> ('a, 's, 'g) fit_state \<Rightarrow> ('a, 's, 'g) fit_state \<Rightarrow> (int \<times> 'a) list \<Rightarrow> bool" where
  "epochs_summary M lc es st st' new =
     (training_error (st_report st') = training_error (st_report st) @ new \<and>
      map fst new = take (length new) es \<and>
      (\<forall>(e, err) \<in> set (butlast new). \<not> err \<le> min_error lc) \<and>
      (length new < length es \<longrightarrow> new \<noteq> [] \<and> snd (last new) \<le> min_error lc) \<and>
      (optimizer_keeps_schedules M \<longrightarrow>
         schedules st' =
           fold (\<lambda>e. map (advance_schedule e))
             (map fst (filter (\<lambda>(e, err). \<not> err \<le> min_error lc) new)) (schedules st)))"

section \<open>The epochs of \<open>fit\<close>, step by step\<close>

text \<open>
  A second description of the epoch loop, following the steps by which the training procedure
  is specified, against which the statements on \<open>fit\<close> compare the code. It is written as one
  function per step, from the network and the report to the network and the report, with
  \<open>None\<close> for an epoch that does not complete. The order of the steps is: shuffle the list;
  train on the windows of the shuffled list; compute and record the training loss (and the
  metric, if one is configured) on the training arrays; the same on the validation arrays, if
  there are any; the test loss, if there are test samples; the convergence check; and, in an
  epoch that does not meet the check, the advance of the schedules.
\<close>

text \<open>
  Step 2: the optimizer is run on the windows \<open>index\<close> of the list \<open>shuffled\<close>, in order, each
  window of the batch size the network has.
\<close>

fun spec_windows ::
  "('a, 's, 'g) modules \<Rightarrow> 'a \<Rightarrow> 'a sample list \<Rightarrow> int list \<Rightarrow> ('a, 's) NeuralNetwork
    \<Rightarrow> ('a, 's) NeuralNetwork option" where
  "spec_windows M ratio shuffled [] nn = Some nn"
| "spec_windows M ratio shuffled (index # rest) nn =
     (case (optimizer_implemented M (optimizer nn), loss_functions M (loss nn)) of
        (Some bp, Some lf) \<Rightarrow>
          (case bp nn (py_slice shuffled (index * batch_size nn) ((index + 1) * batch_size nn))
                  ratio lf of
             (Inr u, nn1) \<Rightarrow> spec_windows M ratio shuffled rest nn1
           | (Inl e, nn1) \<Rightarrow> None)
      | _ \<Rightarrow> None)"

text \<open>
  Step 3 for given arrays: the prediction of the network for the inputs \<open>X\<close>, its loss
  against the targets \<open>T\<close>, and the metric when one is configured.
\<close>

definition spec_predict_loss ::
  "('a::semiring_1, 's, 'g) modules \<Rightarrow> ('a, 's) NeuralNetwork \<Rightarrow> 'a ndarray \<Rightarrow> 'a ndarray
    \<Rightarrow> ('a \<times> 'a option \<times> ('a, 's) NeuralNetwork) option" where
  "spec_predict_loss M nn X T =
     (case predict nn X of
        (Inl e, nn1) \<Rightarrow> None
      | (Inr predicted, nn1) \<Rightarrow>
          (case loss_functions M (loss nn1) of
             None \<Rightarrow> None
           | Some lf \<Rightarrow>
               if metric nn1 = [] then Some (loss_fn lf predicted T, None, nn1)
               else (case metric_functions M (metric nn1) of
                       None \<Rightarrow> None
                     | Some mf \<Rightarrow> Some (loss_fn lf predicted T, Some (mf predicted T), nn1))))"

text \<open>
  Step 3: the training loss is that of the arrays \<open>inputs_training\<close> and \<open>targets_training\<close>
  of the local variables, whatever the order of the list is by now, and it is appended to
  the report.
\<close>

definition spec_training_loss ::
  "('a::semiring_1, 's, 'g) modules \<Rightarrow> 'a fit_locals \<Rightarrow> int
    \<Rightarrow> ('a, 's) NeuralNetwork \<times> 'a Report \<Rightarrow> ('a \<times> ('a, 's) NeuralNetwork \<times> 'a Report) option" where
  "spec_training_loss M lc e = (\<lambda>(nn, rep).
     (case spec_predict_loss M nn (inputs_training lc) (targets_training lc) of
        None \<Rightarrow> None
      | Some (err, acc, nn1) \<Rightarrow>
          Some (err, nn1,
                (case acc of
                   None \<Rightarrow> add_training_error err e rep
                 | Some a \<Rightarrow> add_training_accuracy a e (add_training_error err e rep)))))"

text \<open>Step 4: the same on the validation arrays, when validation samples were given.\<close>

definition spec_validation ::
  "('a::semiring_1, 's, 'g) modules \<Rightarrow> 'a fit_locals \<Rightarrow> int \<Rightarrow> 'a
    \<Rightarrow> ('a, 's) NeuralNetwork \<times> 'a Report \<Rightarrow> (('a, 's) NeuralNetwork \<times> 'a Report) option" where
  "spec_validation M lc e err = (\<lambda>(nn, rep).
     (case validation_arrays lc of
        None \<Rightarrow> Some (nn, rep)
      | Some (XV, TV) \<Rightarrow>
          (case spec_predict_loss M nn XV TV of
             None \<Rightarrow> None
           | Some (validation_err, acc, nn1) \<Rightarrow>
               Some (nn1,
                     add_validation_error err validation_err e
                       (case acc of
                          None \<Rightarrow> rep
                        | Some a \<Rightarrow> add_validation_accuracy a e rep)))))"

text \<open>
  Step 5: the test loss, when test samples were given: the loss of the predictions for the
  test inputs, one by one, divided by the number of test samples.
\<close>

fun spec_predict_each ::
  "('a::semiring_1, 's) NeuralNetwork \<Rightarrow> 'a list list
    \<Rightarrow> ('a ndarray list \<times> ('a, 's) NeuralNetwork) option" where
  "spec_predict_each nn [] = Some ([], nn)"
| "spec_predict_each nn (x # xs) =
     (case predict nn (Vec x) of
        (Inl e, nn1) \<Rightarrow> None
      | (Inr p, nn1) \<Rightarrow>
          (case spec_predict_each nn1 xs of
             None \<Rightarrow> None
           | Some (ps, nn2) \<Rightarrow> Some (p # ps, nn2)))"

definition spec_test ::
  "('a::field, 's, 'g) modules \<Rightarrow> 'a fit_locals \<Rightarrow> int
    \<Rightarrow> ('a, 's) NeuralNetwork \<times> 'a Report \<Rightarrow> (('a, 's) NeuralNetwork \<times> 'a Report) option" where
  "spec_test M lc e = (\<lambda>(nn, rep).
     (case test_samples lc of
        None \<Rightarrow> Some (nn, rep)
      | Some [] \<Rightarrow> Some (nn, rep)
      | Some (t # ts) \<Rightarrow>
          (case loss_functions M (loss nn) of
             None \<Rightarrow> None
           | Some lf \<Rightarrow>
               (case spec_predict_each nn (map fst (t # ts)) of
                  None \<Rightarrow> None
                | Some (ps, nn1) \<Rightarrow>
                    Some (nn1,
                          add_test_error
                            (loss_of_lists M lf ps (map snd (t # ts)) / of_nat (length (t # ts)))
                            e rep)))))"

text \<open>
  One epoch \<open>e\<close> from the state \<open>p\<close>: the list is replaced by its shuffle before anything else;
  the windows are taken from the shuffled list; the losses are recorded; then the training
  loss is compared with \<open>min_error\<close>, and only when it is above it are the schedules of the
  layers advanced by \<open>e\<close>. The result says whether the loop stops here.
\<close>

definition spec_epoch ::
  "('a::linordered_field, 's, 'g) modules \<Rightarrow> 'a fit_locals \<Rightarrow> int \<Rightarrow> ('a, 's, 'g) fit_state
    \<Rightarrow> (bool \<times> ('a, 's, 'g) fit_state) option" where
  "spec_epoch M lc e p =
     (case random_shuffle M (st_random p) (st_training_examples p) of
        (shuffled, g1) \<Rightarrow>
     (case spec_windows M (batch_total_samples_ratio lc) shuffled
             (map int [0..<nat (num_window lc)]) (st_self p) of
        None \<Rightarrow> None
      | Some nn1 \<Rightarrow>
     (case spec_training_loss M lc e (nn1, st_report p) of
        None \<Rightarrow> None
      | Some (err, nn2, rep2) \<Rightarrow>
     (case spec_validation M lc e err (nn2, rep2) of
        None \<Rightarrow> None
      | Some (nn3, rep3) \<Rightarrow>
     (case spec_test M lc e (nn3, rep3) of
        None \<Rightarrow> None
      | Some (nn4, rep4) \<Rightarrow>
          Some (err \<le> min_error lc,
                \<lparr> st_self =
                    (if err \<le> min_error lc then nn4
                     else nn4\<lparr>layers := map (\<lambda>layer. update_learning_rate layer e) (layers nn4)\<rparr>),
                  st_training_examples = shuffled,
                  st_random = g1,
                  st_report = rep4 \<rparr>))))))"

text \<open>The epochs \<open>es\<close> in order, until one of them stops the loop.\<close>

fun spec_epochs ::
  "('a::linordered_field, 's, 'g) modules \<Rightarrow> 'a fit_locals \<Rightarrow> int list \<Rightarrow> ('a, 's, 'g) fit_state
    \<Rightarrow> ('a, 's, 'g) fit_state option" where
  "spec_epochs M lc [] p = Some p"
| "spec_epochs M lc (e # es) p =
     (case spec_epoch M lc e p of
        None \<Rightarrow> None
      | Some (stop, q) \<Rightarrow> if stop then Some q else spec_epochs M lc es q)"

text \<open>
  The state in which a call \<open>fit(xs, v, t, m)\<close> on the network \<open>self\<close> begins its first epoch:
  the network with the batch size forced for \<open>''SGD''\<close>, the caller's list as it was given,
  and the empty report.
\<close>

definition spec_fit_start ::
  "('a, 's) NeuralNetwork \<Rightarrow> 'a sample list \<Rightarrow> 'g \<Rightarrow> 'a \<Rightarrow> ('a, 's, 'g) fit_state" where
  "spec_fit_start self xs g m =
     \<lparr> st_self = (if optimizer self = ''SGD'' then self\<lparr>batch_size := int (length xs)\<rparr> else self),
       st_training_examples = xs,
       st_random = g,
       st_report = Report_init (max_epochs self) m \<rparr>"

text \<open>
  The local variables \<open>lc\<close> with which that call reaches its epoch loop: the training arrays
  are those of the list \<open>xs\<close> in the order in which it was given, the validation arrays those
  of the validation samples when there are any, and the number of windows and the batch ratio
  are computed from the batch size in force, the number of windows as the floor quotient
  that the code takes; the list is not empty and that batch size is not zero.
\<close>

definition locals_of_call ::
  "('a::linordered_field, 's) NeuralNetwork \<Rightarrow> 'a sample list \<Rightarrow> 'a sample list option
    \<Rightarrow> 'a sample list option \<Rightarrow> 'a \<Rightarrow> 'a fit_locals \<Rightarrow> bool" where
  "locals_of_call self xs v t m lc =
     (xs \<noteq> [] \<and>
      (if optimizer self = ''SGD'' then int (length xs) else batch_size self) \<noteq> 0 \<and>
      np_array (map fst xs) = Inr (inputs_training lc) \<and>
      np_array (map snd xs) = Inr (targets_training lc) \<and>
      (case v of
         Some (a # vs) \<Rightarrow>
           (case validation_arrays lc of
              Some (XV, TV) \<Rightarrow>
                np_array (map fst (a # vs)) = Inr XV \<and> np_array (map snd (a # vs)) = Inr TV
            | None \<Rightarrow> False)
       | _ \<Rightarrow> validation_arrays lc = None) \<and>
      test_samples lc = t \<and>
      min_error lc = m \<and>
      num_window lc =
        int (length xs) div (if optimizer self = ''SGD'' then int (length xs) else batch_size self) \<and>
      batch_total_samples_ratio lc =
        of_int (if optimizer self = ''SGD'' then int (length xs) else batch_size self)
          / of_int (int (length xs)))"

section \<open>Examples\<close>

text \<open>
  A layer with one unit and two inputs, with the identity as activation and a schedule that
  records the epochs it was advanced by.
\<close>

definition demo_layer :: "(real, int list) layer" where
  "demo_layer =
     \<lparr> weights = Mat 3 [[1, 2, 3]],
       transposedWeights = Mat 1 [[1], [2], [3]],
       learning_rates = \<lparr> lr_state = [], lr_value = (\<lambda>s. Mat 3 [[0, 0, 0]]), lr_update = (\<lambda>s e. s @ [e]) \<rparr>,
       activation = \<lparr> act_output = (\<lambda>a. a), act_derivative = (\<lambda>a. a) \<rparr>,
       num_unit = 1,
       num_input = 2,
       net = Scalar 0,
       errors = Vec [0],
       inputs = Scalar 0,
       old_delta_w = Mat 3 [[0, 0, 0]],
       current_delta_w = Mat 3 [[0, 0, 0]] \<rparr>"

text \<open>A loss whose derivative is the difference of the outputs and the targets.\<close>

definition demo_loss :: "real Loss" where
  "demo_loss =
     \<lparr> loss_fn = (\<lambda>predicted target. 0),
       loss_derivative = (\<lambda>predicted target.
         Mat (hd (tl (np_shape predicted)))
           (map2 (map2 (\<lambda>p t. p - t)) (mat_rows predicted) (mat_rows target))) \<rparr>"

text \<open>The layer \<open>demo_layer\<close> after \<open>function_signal\<close> on the one sample \<open>(4, 5)\<close>.\<close>

definition demo_layer_forward :: "(real, int list) layer" where
  "demo_layer_forward = demo_layer\<lparr>inputs := Mat 3 [[1, 4, 5]], net := Mat 1 [[24]]\<rparr>"

text \<open>
  Stand-ins for the absent modules: a loss that is the first entry of the prediction, an
  optimizer that only records (in \<open>topology\<close>) the integer part of the first input of every
  sample of the window it is given, and a shuffle that reverses the list.
\<close>

definition demo_first_loss :: "real Loss" where
  "demo_first_loss =
     \<lparr> loss_fn = (\<lambda>predicted target. hd (hd (mat_rows predicted))),
       loss_derivative = (\<lambda>predicted target. predicted) \<rparr>"

definition demo_back_propagation :: "(real, int list) back_propagation" where
  "demo_back_propagation self window_examples ratio lf =
     (Inr (), self\<lparr>topology := topology self @ map (\<lambda>(x, t). \<lfloor>hd x\<rfloor>) window_examples\<rparr>)"

definition demo_modules :: "(real, int list, unit) modules" where
  "demo_modules =
     \<lparr> loss_functions = [''first'' \<mapsto> demo_first_loss],
       loss_of_lists = (\<lambda>lf ps ts. 0),
       metric_functions = Map.empty,
       optimizer_implemented =
         [''SGD'' \<mapsto> demo_back_propagation, ''batch'' \<mapsto> demo_back_propagation],
       random_shuffle = (\<lambda>g xs. (rev xs, g)) \<rparr>"

text \<open>The network of the one layer \<open>demo_layer\<close>, for an optimizer name and a batch size.\<close>

definition demo_network :: "string \<Rightarrow> int \<Rightarrow> (real, int list) NeuralNetwork" where
  "demo_network opt bs =
     \<lparr> max_epochs = 2, input_dimension = 2, output_dimension = 1, optimizer = opt,
       batch_size = bs, layers = [demo_layer], momentum_rate = 0, regularization_rate = 0,
       metric = [], loss = ''first'', topology = [2, 1] \<rparr>"

text \<open>Five training samples, and \<open>fit\<close> on them with the stand-ins of above.\<close>

definition demo_samples :: "real sample list" where
  "demo_samples = [([0, 0], [0]), ([1, 0], [0]), ([2, 0], [0]), ([3, 0], [0]), ([4, 0], [0])]"

definition demo_fit ::
  "string \<Rightarrow> int \<Rightarrow> int \<Rightarrow> real \<Rightarrow> (py_error + real Report) \<times> (real, int list, unit) fit_state" where
  "demo_fit opt bs n m =
     fit demo_modules ((demo_network opt bs)\<lparr>max_epochs := n\<rparr>) demo_samples None None m ()"

text \<open>
  The local variables and the state with which that call of \<open>fit\<close>, with \<open>min_error\<close> one,
  enters its epoch loop.
\<close>

definition demo_locals :: "real fit_locals" where
  "demo_locals =
     \<lparr> num_window = 2,
       inputs_training = Mat 2 [[0, 0], [1, 0], [2, 0], [3, 0], [4, 0]],
       targets_training = Mat 1 [[0], [0], [0], [0], [0]],
       validation_arrays = None,
       test_samples = None,
       batch_total_samples_ratio = 2 / 5,
       min_error = 1 \<rparr>"

definition demo_state :: "(real, int list, unit) fit_state" where
  "demo_state =
     \<lparr> st_self = demo_network ''batch'' 2, st_training_examples = demo_samples,
       st_random = (), st_report = Report_init 2 1 \<rparr>"

text \<open>
  One validation sample, \<open>fit\<close> on the five training samples with it, and the local variables
  with which that call, with \<open>min_error\<close> one, enters its epoch loop.
\<close>

definition demo_validation :: "real sample list" where
  "demo_validation = [([4, 5], [20])]"

definition demo_fit_validated ::
  "real \<Rightarrow> (py_error + real Report) \<times> (real, int list, unit) fit_state" where
  "demo_fit_validated m =
     fit demo_modules (demo_network ''batch'' 2) demo_samples (Some demo_validation) None m ()"

definition demo_locals_validated :: "real fit_locals" where
  "demo_locals_validated =
     demo_locals\<lparr>validation_arrays := Some (Mat 2 [[4, 5]], Mat 1 [[20]])\<rparr>"

section \<open>Properties of the layer\<close>

lemma sum_upt_dot:
  "length xs = n \<Longrightarrow> length ys = n \<Longrightarrow> (\<Sum>k\<leftarrow>[0..<n]. xs ! k * ys ! k) = dot xs ys"
proof -
  assume a: "length xs = n" "length ys = n"
  have "map2 (*) xs ys = map (\<lambda>k. xs ! k * ys ! k) [0..<n]"
    using a by (intro nth_equalityI) simp_all
  then show ?thesis by (simp add: dot_def)
qed

lemma Layer_init_inv:
  "wf_ndarray w \<Longrightarrow> Layer_init uninit w lr act = Inr l \<Longrightarrow> layer_inv l"
  by (cases w) (auto simp: Layer_init_def layer_inv_def split: if_splits)

lemma matmul_transposed_rows:
  assumes W: "list_all (\<lambda>r. length r = wc) W"
    and X: "list_all (\<lambda>r. length r = wc) X"
  shows "np_matmul (Mat wc X) (np_transpose (Mat wc W)) =
           Inr (Mat (length W) (map (\<lambda>x. map (\<lambda>w. dot x w) W) X))"
proof -
  have entry: "(\<Sum>k\<leftarrow>[0..<wc]. x ! k * map (\<lambda>j. map (\<lambda>r. r ! j) W) [0..<wc] ! k ! j) = dot x (W ! j)"
    if "x \<in> set X" "j < length W" for x j
  proof -
    have lx: "length x = wc" using X that(1) by (simp add: list_all_iff)
    have lw: "length (W ! j) = wc" using W that(2) by (simp add: list_all_iff)
    have "(\<Sum>k\<leftarrow>[0..<wc]. x ! k * map (\<lambda>j. map (\<lambda>r. r ! j) W) [0..<wc] ! k ! j)
            = (\<Sum>k\<leftarrow>[0..<wc]. x ! k * W ! j ! k)"
      using that(2) by (intro arg_cong[where f = sum_list] map_cong) simp_all
    then show ?thesis using sum_upt_dot[OF lx lw] by simp
  qed
  have "map (\<lambda>j. \<Sum>k\<leftarrow>[0..<wc]. x ! k * map (\<lambda>j. map (\<lambda>r. r ! j) W) [0..<wc] ! k ! j) [0..<length W]
          = map (\<lambda>w. dot x w) W" if "x \<in> set X" for x
  proof -
    have "map (\<lambda>j. \<Sum>k\<leftarrow>[0..<wc]. x ! k * map (\<lambda>j. map (\<lambda>r. r ! j) W) [0..<wc] ! k ! j) [0..<length W]
            = map (\<lambda>j. dot x (W ! j)) [0..<length W]"
      using entry[OF that] by (intro map_cong) simp_all
    also have "\<dots> = map (\<lambda>w. dot x w) (map (\<lambda>j. W ! j) [0..<length W])"
      by (simp add: comp_def)
    finally show ?thesis by (simp add: map_nth)
  qed
  then show ?thesis by simp
qed

text \<open>
  C1. For a layer in the state its methods keep and an input matrix \<open>Mat c X\<close>:
  if the column count \<open>c\<close> differs from \<open>num_input\<close>, \<open>function_signal\<close> raises
  \<open>ValueError\<close> and leaves the layer as it was; otherwise it stores the input with a
  column of ones in front as \<open>inputs\<close>, stores as \<open>net\<close> the matrix whose entry for a
  sample and a unit is the inner product of the augmented sample with the unit's weight row
  (the product of \<open>inputs\<close> with the transposed weights), and returns the activation's
  \<open>act_output\<close> of \<open>net\<close>.
\<close>

theorem function_signal_spec:
  assumes "layer_inv self" and "wf_ndarray (Mat c X)"
  shows "function_signal self (Mat c X) =
           (if int c \<noteq> num_input self then (Inl ValueError, self)
            else
              let inputs1 = Mat (Suc c) (map (\<lambda>x. 1 # x) X);
                  net1 = Mat (num_unit self)
                           (map (\<lambda>x. map (\<lambda>w. dot x w) (mat_rows (weights self))) (mat_rows inputs1))
              in (Inr (act_output (activation self) net1), self\<lparr>inputs := inputs1, net := net1\<rparr>))"
proof (cases "weights self")
  case (Mat wc W)
  with assms(1) have inv: "list_all (\<lambda>r. length r = wc) W"
    "transposedWeights self = np_transpose (Mat wc W)"
    "num_unit self = length W" "num_input self = int wc - 1"
    by (simp_all add: layer_inv_def)
  show ?thesis
  proof (cases "int c \<noteq> num_input self")
    case True
    then show ?thesis by (simp add: function_signal_def)
  next
    case False
    then have wc: "wc = Suc c" using inv(4) by simp
    have X1: "list_all (\<lambda>r. length r = wc) (map (\<lambda>x. 1 # x) X)"
      using assms(2) wc by (simp add: list_all_iff)
    have mm: "np_matmul (Mat (Suc c) (map (\<lambda>x. 1 # x) X)) (transposedWeights self) =
                Inr (Mat (length W) (map (\<lambda>x. map (\<lambda>w. dot x w) W) (map (\<lambda>x. 1 # x) X)))"
      using matmul_transposed_rows[OF inv(1) X1] inv(2) wc by simp
    show ?thesis
      using False mm inv(3) Mat
      by (simp add: function_signal_def Let_def del: np_matmul.simps np_transpose.simps)
  qed
qed (use assms(1) in \<open>simp_all add: layer_inv_def\<close>)

lemma demo_layer_constructed:
  "Layer_init (\<lambda>i. 0) (Mat 3 [[1, 2, 3]])
     \<lparr> lr_state = [], lr_value = (\<lambda>s. Mat 3 [[0, 0, 0]]), lr_update = (\<lambda>s e. s @ [e]) \<rparr>
     \<lparr> act_output = (\<lambda>a. a), act_derivative = (\<lambda>a. a) \<rparr> = Inr demo_layer"
  by (simp add: Layer_init_def demo_layer_def eval_nat_numeral)

text \<open>
  The statement of C1 on \<open>demo_layer\<close>: the sample \<open>(4, 5)\<close> gives the net
  \<open>1 + 2 * 4 + 3 * 5\<close>, and an input of three columns is refused.
\<close>

theorem function_signal_spec_witness:
  "layer_inv demo_layer \<and> wf_ndarray (Mat 2 [[4, 5 :: real]]) \<and>
   function_signal demo_layer (Mat 2 [[4, 5]]) =
     (Inr (Mat 1 [[24]]), demo_layer\<lparr>inputs := Mat 3 [[1, 4, 5]], net := Mat 1 [[24]]\<rparr>) \<and>
   function_signal demo_layer (Mat 3 [[4, 5, 6]]) = (Inl ValueError, demo_layer)"
proof -
  have inv: "layer_inv demo_layer"
    by (simp add: layer_inv_def demo_layer_def eval_nat_numeral)
  have wf2: "wf_ndarray (Mat 2 [[4, 5 :: real]])" and wf3: "wf_ndarray (Mat 3 [[4, 5, 6 :: real]])"
    by simp_all
  show ?thesis
    using inv wf2 function_signal_spec[OF inv wf2] function_signal_spec[OF inv wf3]
    by (simp add: demo_layer_def dot_def Let_def)
qed

lemma function_signal_stores:
  assumes "layer_inv self0" and "function_signal self0 (Mat c X) = (Inr out, self)"
  shows "inputs self = Mat (Suc c) (map (\<lambda>x. 1 # x) X) \<and> layer_inv self \<and>
         (\<exists>N. net self = Mat (num_unit self0) N \<and> length N = length X) \<and>
         weights self = weights self0 \<and> activation self = activation self0 \<and>
         errors self = errors self0 \<and> current_delta_w self = current_delta_w self0"
proof (cases "weights self0")
  case (Mat wc W)
  with assms(1) have inv: "transposedWeights self0 = Mat (length W) (map (\<lambda>j. map (\<lambda>r. r ! j) W) [0..<wc])"
    "num_unit self0 = length W"
    by (simp_all add: layer_inv_def)
  show ?thesis
    using assms inv Mat
    by (auto simp: function_signal_def layer_inv_def Let_def split: if_splits)
qed (use assms(1) in \<open>simp_all add: layer_inv_def\<close>)

lemma map2_rows_wf:
  "list_all (\<lambda>r. length r = u) D \<Longrightarrow> list_all (\<lambda>r. length r = u) F
    \<Longrightarrow> list_all (\<lambda>r. length r = u) (map2 (map2 f) D F)"
  by (induction D F rule: list_induct2') simp_all

lemma np_multiply_same_shape:
  assumes "list_all (\<lambda>r. length r = u) D" "list_all (\<lambda>r. length r = u) F" "length D = length F"
  shows "np_multiply (Mat u D) (Mat u F) = Inr (Mat u (map2 (map2 (*)) D F))"
proof -
  let ?n = "length D"
  have bi: "bidx ?n i = i" if "i < ?n" for i using that by (auto simp: bidx_def)
  have bj: "bidx u j = j" if "j < u" for j using that by (auto simp: bidx_def)
  have row: "map (\<lambda>j. D ! bidx ?n i ! bidx u j * F ! bidx ?n i ! bidx u j) [0..<u] = map2 (*) (D ! i) (F ! i)"
    if "i < ?n" for i
  proof -
    have "length (D ! i) = u" "length (F ! i) = u"
      using assms that by (simp_all add: list_all_iff)
    then show ?thesis using bi[OF that] bj
      by (intro nth_equalityI) simp_all
  qed
  have "map (\<lambda>i. map (\<lambda>j. D ! bidx ?n i ! bidx u j * F ! bidx ?n i ! bidx u j) [0..<u]) [0..<?n]
          = map2 (map2 (*)) D F"
    using row assms(3) by (intro nth_equalityI) simp_all
  then show ?thesis
    using assms(3) by (simp add: np_multiply_def broadcast_dim_def demote_def)
qed

lemma einsum_each_rows:
  "einsum_each (zip (map Vec E) (map Vec X)) =
     Inr (map (\<lambda>(e, x). Mat (length x) (map (\<lambda>a. map (\<lambda>b. a * b) x) e)) (zip E X))"
  by (induction E X rule: list_induct2') simp_all

lemma np_sum_axis0_outer:
  assumes "ps \<noteq> []" "\<forall>(e, x) \<in> set ps. length e = u \<and> length x = c"
  shows "np_sum_axis0 (map (\<lambda>(e, x). Mat (length x) (map (\<lambda>a. map (\<lambda>b. a * b) x) e)) ps) =
           Inr (Mat c (map (\<lambda>i. map (\<lambda>j. (\<Sum>(e, x)\<leftarrow>ps. e ! i * x ! j)) [0..<c]) [0..<u]))"
proof -
  obtain e0 x0 ps' where ps: "ps = (e0, x0) # ps'" using assms(1) by (cases ps) auto
  have l0: "length e0 = u" "length x0 = c" using assms(2) ps by auto
  have shapes: "list_all (\<lambda>m. np_shape m = [u, c]) (map (\<lambda>(e, x). Mat (length x) (map (\<lambda>a. map (\<lambda>b. a * b) x) e)) ps')"
    using assms(2) ps by (auto simp: list_all_iff)
  have entry: "(\<Sum>m\<leftarrow>map (\<lambda>(e, x). Mat (length x) (map (\<lambda>a. map (\<lambda>b. a * b) x) e)) ps. mat_rows m ! i ! j)
                 = (\<Sum>(e, x)\<leftarrow>ps. e ! i * x ! j)" if "i \<in> set [0..<u]" "j \<in> set [0..<c]" for i j
  proof -
    have "map ((\<lambda>m. mat_rows m ! i ! j) \<circ> (\<lambda>(e, x). Mat (length x) (map (\<lambda>a. map (\<lambda>b. a * b) x) e))) ps
            = map (\<lambda>(e, x). e ! i * x ! j) ps"
      by (rule map_cong) (use assms(2) that in auto)
    then show ?thesis by (simp only: map_map)
  qed
  have rows: "map (\<lambda>i. map (\<lambda>j. (\<Sum>m\<leftarrow>map (\<lambda>(e, x). Mat (length x) (map (\<lambda>a. map (\<lambda>b. a * b) x) e)) ps.
                      mat_rows m ! i ! j)) [0..<c]) [0..<u]
               = map (\<lambda>i. map (\<lambda>j. (\<Sum>(e, x)\<leftarrow>ps. e ! i * x ! j)) [0..<c]) [0..<u]"
    by (intro map_cong refl entry)
  show ?thesis
    using shapes rows l0 unfolding ps by simp
qed

lemma accumulate_delta_w_rows:
  assumes "errors self = Mat u E" "list_all (\<lambda>r. length r = u) E"
    and "inputs self = Mat cx X" "list_all (\<lambda>r. length r = cx) X"
  shows "accumulate_delta_w self =
           (Inr (), self\<lparr>current_delta_w :=
              (if zip E X = [] then Scalar 0
               else Mat cx (map (\<lambda>i. map (\<lambda>j. (\<Sum>(e, x)\<leftarrow>zip E X. e ! i * x ! j)) [0..<cx]) [0..<u]))\<rparr>)"
proof (cases "zip E X = []")
  case True
  show ?thesis
    using assms(1,3) by (simp add: accumulate_delta_w_def py_zip_def einsum_each_rows True)
next
  case False
  have len: "\<forall>(e, x) \<in> set (zip E X). length e = u \<and> length x = cx"
    using assms(2,4) by (auto simp: list_all_iff dest: set_zip_leftD set_zip_rightD)
  show ?thesis
    using False assms(1,3) np_sum_axis0_outer[OF False len]
    by (simp add: accumulate_delta_w_def py_zip_def einsum_each_rows)
qed

lemma accumulate_delta_w_layer_inv:
  "layer_inv self \<Longrightarrow> layer_inv (snd (accumulate_delta_w self))"
  by (auto simp: accumulate_delta_w_def layer_inv_def split: sum.splits ndarray.splits)

lemma error_signal_layer_inv:
  assumes "layer_inv self"
  shows "layer_inv (snd (OutputLayer_error_signal self targets outputs L))"
    and "layer_inv (snd (HiddenLayer_error_signal self downStreamErrors downStreamWeights))"
proof -
  have upd: "layer_inv (self\<lparr>errors := es\<rparr>)" for es
    using assms by (auto simp: layer_inv_def split: ndarray.splits)
  show "layer_inv (snd (OutputLayer_error_signal self targets outputs L))"
    using assms accumulate_delta_w_layer_inv[OF upd]
    by (simp add: OutputLayer_error_signal_def Let_def split: sum.splits)
  show "layer_inv (snd (HiddenLayer_error_signal self downStreamErrors downStreamWeights))"
    using assms accumulate_delta_w_layer_inv[OF upd]
    by (simp add: HiddenLayer_error_signal_def Let_def split: sum.splits)
qed

text \<open>
  C2. For an output layer on which \<open>function_signal\<close> has run on the batch \<open>Mat c X\<close>,
  when the activation's derivative of \<open>net\<close> and the loss's derivative of the outputs and
  targets are matrices of one shape, \<open>error_signal\<close> succeeds, sets \<open>errors\<close> to their
  entrywise product, and sets \<open>current_delta_w\<close> to the sum, over the samples, of the outer
  products of the sample's error row with its input row with the leading one: entry
  \<open>(i, j)\<close> is the sum of \<open>e ! i * x ! j\<close> over the paired rows. Of an empty batch NumPy's sum
  is the number zero. No other field of the layer changes.
\<close>

theorem OutputLayer_error_signal_spec:
  assumes fwd: "layer_inv self0" "wf_ndarray (Mat c X)"
      "function_signal self0 (Mat c X) = (Inr out, self)"
    and D: "act_derivative (activation self) (net self) = Mat u D"
      "list_all (\<lambda>r. length r = u) D"
    and F: "loss_derivative L outputs targets = Mat u F"
      "list_all (\<lambda>r. length r = u) F" "length F = length D"
  shows "OutputLayer_error_signal self targets outputs L =
           (Inr (),
            self\<lparr>errors := Mat u (map2 (map2 (*)) D F),
                 current_delta_w :=
                   (if zip (map2 (map2 (*)) D F) (map (\<lambda>x. 1 # x) X) = [] then Scalar 0
                    else Mat (Suc c)
                      (map (\<lambda>i. map (\<lambda>j. (\<Sum>(e, x)\<leftarrow>zip (map2 (map2 (*)) D F) (map (\<lambda>x. 1 # x) X).
                                             e ! i * x ! j)) [0..<Suc c]) [0..<u]))\<rparr>)"
proof -
  let ?E = "map2 (map2 (*)) D F"
  have inp: "inputs self = Mat (Suc c) (map (\<lambda>x. 1 # x) X)"
    using function_signal_stores[OF fwd(1,3)] by simp
  have wfE: "list_all (\<lambda>r. length r = u) ?E"
    using D(2) F(2) by (rule map2_rows_wf)
  have wfX: "list_all (\<lambda>r. length r = Suc c) (map (\<lambda>x. 1 # x) X)"
    using fwd(2) by (simp add: list_all_iff)
  have mul: "np_multiply (Mat u D) (Mat u F) = Inr (Mat u ?E)"
    using np_multiply_same_shape[OF D(2) F(2)] F(3) by simp
  have acc: "accumulate_delta_w (self\<lparr>errors := Mat u ?E\<rparr>) =
               (Inr (), self\<lparr>errors := Mat u ?E, current_delta_w :=
                  (if zip ?E (map (\<lambda>x. 1 # x) X) = [] then Scalar 0
                   else Mat (Suc c)
                      (map (\<lambda>i. map (\<lambda>j. (\<Sum>(e, x)\<leftarrow>zip ?E (map (\<lambda>x. 1 # x) X).
                                             e ! i * x ! j)) [0..<Suc c]) [0..<u]))\<rparr>)"
    using accumulate_delta_w_rows[of "self\<lparr>errors := Mat u ?E\<rparr>" u ?E "Suc c" "map (\<lambda>x. 1 # x) X"]
      wfE wfX inp by simp
  show ?thesis
    unfolding OutputLayer_error_signal_def Let_def D(1) F(1) mul using acc by simp
qed

lemma backprop_matmul:
  assumes "list_all (\<lambda>r. length r = Suc U) W"
  shows "np_matmul (Mat (length W) E) (Mat U (map (drop 1) W)) =
           Inr (Mat U (map (\<lambda>e. map (\<lambda>unit. (\<Sum>k\<leftarrow>[0..<length W]. e ! k * W ! k ! Suc unit)) [0..<U]) E))"
proof -
  have "(\<Sum>k\<leftarrow>[0..<length W]. e ! k * map (drop 1) W ! k ! j)
          = (\<Sum>k\<leftarrow>[0..<length W]. e ! k * W ! k ! Suc j)" if "j \<in> set [0..<U]" for e j
  proof -
    have "map (\<lambda>k. e ! k * map (drop 1) W ! k ! j) [0..<length W]
            = map (\<lambda>k. e ! k * W ! k ! Suc j) [0..<length W]"
      using assms that by (intro map_cong refl) (simp add: list_all_iff)
    then show ?thesis by (rule arg_cong)
  qed
  then have "map (\<lambda>e. map (\<lambda>j. (\<Sum>k\<leftarrow>[0..<length W]. e ! k * map (drop 1) W ! k ! j)) [0..<U]) E
          = map (\<lambda>e. map (\<lambda>unit. (\<Sum>k\<leftarrow>[0..<length W]. e ! k * W ! k ! Suc unit)) [0..<U]) E"
    by (intro map_cong refl)
  then show ?thesis by simp
qed

text \<open>
  C3. For a hidden layer on which \<open>function_signal\<close> has run, with the activation's
  derivative of \<open>net\<close> a matrix \<open>D\<close> of \<open>U\<close> columns, the downstream weights a matrix \<open>W\<close>
  of \<open>U + 1\<close> columns and the downstream errors a matrix \<open>E\<close> with one column for each row
  of \<open>W\<close>: \<open>error_signal\<close> succeeds and the error of a sample \<open>s\<close> and a unit is
  \<open>D ! s ! unit\<close> times the sum over the downstream units \<open>k\<close> of
  \<open>E ! s ! k * W ! k ! (unit + 1)\<close>. Column \<open>0\<close> of \<open>W\<close>, the bias column, does not occur.
\<close>

theorem HiddenLayer_error_signal_spec:
  assumes fwd: "layer_inv self0" "wf_ndarray (Mat c X)"
      "function_signal self0 (Mat c X) = (Inr out, self)"
    and D: "act_derivative (activation self) (net self) = Mat U D"
      "list_all (\<lambda>r. length r = U) D"
    and W: "list_all (\<lambda>r. length r = Suc U) W"
    and E: "length E = length D"
  shows "fst (HiddenLayer_error_signal self (Mat (length W) E) (Mat (Suc U) W)) = Inr () \<and>
         errors (snd (HiddenLayer_error_signal self (Mat (length W) E) (Mat (Suc U) W))) =
           Mat U (map (\<lambda>s. map (\<lambda>unit. D ! s ! unit * (\<Sum>k\<leftarrow>[0..<length W]. E ! s ! k * W ! k ! Suc unit))
                              [0..<U]) [0..<length D])"
proof -
  let ?M = "map (\<lambda>e. map (\<lambda>unit. (\<Sum>k\<leftarrow>[0..<length W]. e ! k * W ! k ! Suc unit)) [0..<U]) E"
  let ?E = "map2 (map2 (*)) D ?M"
  have inp: "inputs self = Mat (Suc c) (map (\<lambda>x. 1 # x) X)"
    using function_signal_stores[OF fwd(1,3)] by simp
  have wfM: "list_all (\<lambda>r. length r = U) ?M"
    by (simp add: list_all_iff)
  have mul: "np_multiply (Mat U D) (Mat U ?M) = Inr (Mat U ?E)"
    using np_multiply_same_shape[OF D(2) wfM] E by simp
  have wfE: "list_all (\<lambda>r. length r = U) ?E"
    using D(2) wfM by (rule map2_rows_wf)
  have wfX: "list_all (\<lambda>r. length r = Suc c) (map (\<lambda>x. 1 # x) X)"
    using fwd(2) by (simp add: list_all_iff)
  have entries: "?E = map (\<lambda>s. map (\<lambda>unit. D ! s ! unit * (\<Sum>k\<leftarrow>[0..<length W]. E ! s ! k * W ! k ! Suc unit))
                              [0..<U]) [0..<length D]"
  proof (rule nth_equalityI)
    show "length ?E = length (map (\<lambda>s. map (\<lambda>unit. D ! s ! unit * (\<Sum>k\<leftarrow>[0..<length W]. E ! s ! k * W ! k ! Suc unit))
                              [0..<U]) [0..<length D])"
      using E by simp
  next
    fix s assume "s < length ?E"
    then have s: "s < length D" "s < length E" using E by simp_all
    then have l: "length (D ! s) = U" using D(2) by (simp add: list_all_iff)
    show "?E ! s = map (\<lambda>s. map (\<lambda>unit. D ! s ! unit * (\<Sum>k\<leftarrow>[0..<length W]. E ! s ! k * W ! k ! Suc unit))
                              [0..<U]) [0..<length D] ! s"
      by (rule nth_equalityI) (use s l in simp_all)
  qed
  have acc: "accumulate_delta_w (self\<lparr>errors := Mat U ?E\<rparr>) =
               (Inr (), self\<lparr>errors := Mat U ?E, current_delta_w :=
                  (if zip ?E (map (\<lambda>x. 1 # x) X) = [] then Scalar 0
                   else Mat (Suc c)
                      (map (\<lambda>i. map (\<lambda>j. (\<Sum>(e, x)\<leftarrow>zip ?E (map (\<lambda>x. 1 # x) X).
                                             e ! i * x ! j)) [0..<Suc c]) [0..<U]))\<rparr>)"
    using accumulate_delta_w_rows[of "self\<lparr>errors := Mat U ?E\<rparr>" U ?E "Suc c" "map (\<lambda>x. 1 # x) X"]
      wfE wfX inp by simp
  have sl: "np_slice_from_col1 (Mat (Suc U) W) = Inr (Mat U (map (drop 1) W))"
    by simp
  have "HiddenLayer_error_signal self (Mat (length W) E) (Mat (Suc U) W) =
          accumulate_delta_w (self\<lparr>errors := Mat U ?E\<rparr>)"
    by (simp only: HiddenLayer_error_signal_def Let_def D(1) sl backprop_matmul[OF W] mul sum.case)
  then show ?thesis
    using acc entries by simp
qed

lemma demo_layer_inv: "layer_inv demo_layer"
  by (simp add: layer_inv_def demo_layer_def eval_nat_numeral)

lemma demo_layer_forward_run:
  "function_signal demo_layer (Mat 2 [[4, 5]]) = (Inr (Mat 1 [[24]]), demo_layer_forward)"
  by (simp add: function_signal_def demo_layer_def demo_layer_forward_def eval_nat_numeral)

text \<open>
  The statement of C2 on \<open>demo_layer\<close> after that forward pass, with the target \<open>20\<close>: the
  error is \<open>24 * (24 - 20)\<close> and the weight delta is its outer product with \<open>(1, 4, 5)\<close>.
\<close>

theorem OutputLayer_error_signal_spec_witness:
  "layer_inv demo_layer \<and> wf_ndarray (Mat 2 [[4, 5 :: real]]) \<and>
   function_signal demo_layer (Mat 2 [[4, 5]]) = (Inr (Mat 1 [[24]]), demo_layer_forward) \<and>
   act_derivative (activation demo_layer_forward) (net demo_layer_forward) = Mat 1 [[24]] \<and>
   loss_derivative demo_loss (Mat 1 [[24]]) (Mat 1 [[20]]) = Mat 1 [[4]] \<and>
   OutputLayer_error_signal demo_layer_forward (Mat 1 [[20]]) (Mat 1 [[24]]) demo_loss =
     (Inr (), demo_layer_forward\<lparr>errors := Mat 1 [[96]], current_delta_w := Mat 3 [[96, 384, 480]]\<rparr>)"
proof -
  have wf: "wf_ndarray (Mat 2 [[4, 5 :: real]])" by simp
  have D: "act_derivative (activation demo_layer_forward) (net demo_layer_forward) = Mat 1 [[24]]"
    by (simp add: demo_layer_forward_def demo_layer_def)
  have F: "loss_derivative demo_loss (Mat 1 [[24]]) (Mat 1 [[20]]) = Mat 1 [[4]]"
    by (simp add: demo_loss_def)
  have "OutputLayer_error_signal demo_layer_forward (Mat 1 [[20]]) (Mat 1 [[24]]) demo_loss =
     (Inr (), demo_layer_forward\<lparr>errors := Mat 1 [[96]], current_delta_w := Mat 3 [[96, 384, 480]]\<rparr>)"
    using OutputLayer_error_signal_spec[OF demo_layer_inv wf demo_layer_forward_run D _ F]
    by (simp add: eval_nat_numeral)
  then show ?thesis
    using demo_layer_inv wf demo_layer_forward_run D F by simp
qed

text \<open>
  The statement of C3 on the same layer under a layer of two units with the weight rows
  \<open>(7, 2)\<close> and \<open>(9, 3)\<close> and the errors \<open>(5, 6)\<close>: the error is \<open>24 * (5 * 2 + 6 * 3)\<close>; the bias
  weights \<open>7\<close> and \<open>9\<close> play no part.
\<close>

theorem HiddenLayer_error_signal_spec_witness:
  "layer_inv demo_layer \<and> wf_ndarray (Mat 2 [[4, 5 :: real]]) \<and>
   function_signal demo_layer (Mat 2 [[4, 5]]) = (Inr (Mat 1 [[24]]), demo_layer_forward) \<and>
   act_derivative (activation demo_layer_forward) (net demo_layer_forward) = Mat 1 [[24]] \<and>
   fst (HiddenLayer_error_signal demo_layer_forward (Mat 2 [[5, 6]]) (Mat 2 [[7, 2], [9, 3]])) = Inr () \<and>
   errors (snd (HiddenLayer_error_signal demo_layer_forward (Mat 2 [[5, 6]]) (Mat 2 [[7, 2], [9, 3]])))
     = Mat 1 [[672]]"
proof -
  have wf: "wf_ndarray (Mat 2 [[4, 5 :: real]])" by simp
  have D: "act_derivative (activation demo_layer_forward) (net demo_layer_forward) = Mat (Suc 0) [[24]]"
    by (simp add: demo_layer_forward_def demo_layer_def)
  have W: "list_all (\<lambda>r. length r = Suc (Suc 0)) [[7, 2], [9, 3 :: real]]" by simp
  show ?thesis
    using HiddenLayer_error_signal_spec[OF demo_layer_inv wf demo_layer_forward_run D _ W, of "[[5, 6]]"]
      demo_layer_inv wf demo_layer_forward_run D
    by (simp add: eval_nat_numeral)
qed

section \<open>Properties of the network\<close>

lemma NeuralNetwork_init_inv:
  "NeuralNetwork_init M e opt l m mo r b = Inr nn \<Longrightarrow> network_inv nn"
  by (auto simp: NeuralNetwork_init_def network_inv_def split: sum.splits)

lemma add_layer_inv:
  assumes "network_inv self" "layer_inv layer"
  shows "network_inv (snd (add_layer self (LayerObject layer)))"
  using assms by (auto simp: add_layer_def network_inv_def Let_def)

text \<open>
  C7. For a network in the state its constructor and \<open>add_layer\<close> keep: when it has a layer
  and the new layer's input count differs from the unit count of the last layer, \<open>add_layer\<close>
  raises \<open>ValueError\<close> and the network, with its layers and dimensions, is as before; when the
  counts agree the layer is appended; and when the network has no layer the call succeeds
  for any layer and sets the input dimension to the layer's input count.
\<close>

theorem add_layer_spec:
  assumes "network_inv self"
  shows "(layers self \<noteq> [] \<and> num_input layer \<noteq> int (num_unit (last (layers self)))
            \<longrightarrow> add_layer self (LayerObject layer) = (Inl ValueError, self)) \<and>
         (layers self \<noteq> [] \<and> num_input layer = int (num_unit (last (layers self)))
            \<longrightarrow> add_layer self (LayerObject layer) =
                  (Inr (), self\<lparr>topology := topology self @ [int (num_unit layer)],
                                output_dimension := int (num_unit layer),
                                layers := layers self @ [layer]\<rparr>)) \<and>
         (layers self = []
            \<longrightarrow> add_layer self (LayerObject layer) =
                  (Inr (), self\<lparr>input_dimension := num_input layer,
                                topology := topology self @ [num_input layer, int (num_unit layer)],
                                output_dimension := int (num_unit layer),
                                layers := [layer]\<rparr>))"
  using assms by (auto simp: add_layer_def network_inv_def Let_def)

text \<open>
  C8. Constructing a network with \<open>max_epochs \<le> 0\<close> raises \<open>InvalidNeuralNetwork\<close>, whatever
  the other arguments are, and no network (hence no layer) exists. For \<open>max_epochs > 0\<close> the
  check of that parameter returns it, and a construction that succeeds yields a network with
  that epoch count and no layer.
\<close>

theorem NeuralNetwork_init_max_epochs:
  "(max_epochs' \<le> 0 \<longrightarrow>
      NeuralNetwork_init M max_epochs' optimizer' loss' metric' momentum_rate' regularization_rate'
        batch_size' = Inl InvalidNeuralNetwork) \<and>
   (0 < max_epochs' \<longrightarrow> check_max_epochs max_epochs' = Inr max_epochs') \<and>
   (0 < max_epochs' \<longrightarrow>
      (\<forall>nn. NeuralNetwork_init M max_epochs' optimizer' loss' metric' momentum_rate'
              regularization_rate' batch_size' = Inr nn
            \<longrightarrow> max_epochs nn = max_epochs' \<and> layers nn = []))"
  by (auto simp: NeuralNetwork_init_def check_max_epochs_def split: sum.splits)

lemma function_signal_same_forward:
  assumes "same_forward l1 l2"
  shows "fst (function_signal l1 x) = fst (function_signal l2 x) \<and>
         same_forward (snd (function_signal l1 x)) (snd (function_signal l2 x))"
  using assms
  by (cases x) (auto simp: function_signal_def same_forward_def Let_def split: sum.splits)

lemma feed_layers_same_forward:
  assumes "list_all2 same_forward ls1 ls2"
  shows "fst (feed_layers ls1 x) = fst (feed_layers ls2 x) \<and>
         list_all2 same_forward (snd (feed_layers ls1 x)) (snd (feed_layers ls2 x))"
  using assms
proof (induction ls1 ls2 arbitrary: x rule: list_all2_induct)
  case Nil
  then show ?case by simp
next
  case (Cons l1 ls1 l2 ls2)
  note fs = function_signal_same_forward[OF Cons.hyps(1), of x]
  show ?case
  proof (cases "function_signal l1 x")
    case p1: (Pair r1 l1')
    obtain r2 l2' where p2: "function_signal l2 x = (r2, l2')" by (cases "function_signal l2 x")
    from fs p1 p2 have r: "r1 = r2" and sf: "same_forward l1' l2'" by simp_all
    show ?thesis
    proof (cases r1)
      case (Inl e)
      then show ?thesis using p1 p2 r sf Cons.hyps(2) by simp
    next
      case (Inr out)
      then show ?thesis
        using p1 p2 r sf Cons.IH[of out] by (auto split: prod.splits)
    qed
  qed
qed

lemma function_signal_frame:
  "weights (snd (function_signal l x)) = weights l \<and>
   transposedWeights (snd (function_signal l x)) = transposedWeights l \<and>
   num_input (snd (function_signal l x)) = num_input l \<and>
   num_unit (snd (function_signal l x)) = num_unit l \<and>
   activation (snd (function_signal l x)) = activation l \<and>
   learning_rates (snd (function_signal l x)) = learning_rates l"
  by (cases x) (auto simp: function_signal_def Let_def split: sum.splits)

lemma function_signal_layer_inv:
  "layer_inv l \<Longrightarrow> layer_inv (snd (function_signal l x))"
  using function_signal_frame[of l x] by (auto simp: layer_inv_def split: ndarray.splits)

lemma feed_layers_frame:
  "length (snd (feed_layers ls x)) = length ls \<and>
   map weights (snd (feed_layers ls x)) = map weights ls \<and>
   map transposedWeights (snd (feed_layers ls x)) = map transposedWeights ls \<and>
   map num_input (snd (feed_layers ls x)) = map num_input ls \<and>
   map num_unit (snd (feed_layers ls x)) = map num_unit ls \<and>
   map activation (snd (feed_layers ls x)) = map activation ls \<and>
   map learning_rates (snd (feed_layers ls x)) = map learning_rates ls \<and>
   (list_all layer_inv ls \<longrightarrow> list_all layer_inv (snd (feed_layers ls x)))"
proof (induction ls arbitrary: x)
  case Nil
  then show ?case by simp
next
  case (Cons l ls)
  obtain r l' where p: "function_signal l x = (r, l')" by (cases "function_signal l x")
  note fr = function_signal_frame[of l x] function_signal_layer_inv[of l x]
  show ?case
  proof (cases r)
    case (Inl e)
    then show ?thesis using p fr by simp
  next
    case (Inr out)
    then show ?thesis using p fr Cons.IH[of out] by (auto split: prod.splits)
  qed
qed

lemma predict_frame:
  "map weights (layers (snd (predict nn x))) = map weights (layers nn) \<and>
   map activation (layers (snd (predict nn x))) = map activation (layers nn) \<and>
   map learning_rates (layers (snd (predict nn x))) = map learning_rates (layers nn) \<and>
   (network_inv nn \<longrightarrow> network_inv (snd (predict nn x)))"
proof (cases "\<exists>c rows. x = Mat c rows \<and> int c = input_dimension nn \<and> layers nn \<noteq> []")
  case True
  then obtain c rows where x: "x = Mat c rows" "int c = input_dimension nn" "layers nn \<noteq> []"
    by blast
  note fr = feed_layers_frame[of "layers nn" x]
  have ne: "snd (feed_layers (layers nn) x) \<noteq> []" using fr x(3) by auto
  have hd: "num_input (hd (snd (feed_layers (layers nn) x))) = num_input (hd (layers nn))"
    using fr x(3) ne by (metis hd_map)
  have lst: "num_unit (last (snd (feed_layers (layers nn) x))) = num_unit (last (layers nn))"
    using fr x(3) ne by (metis last_map)
  show ?thesis
    using x fr ne hd lst
    by (auto simp: predict_def feedward_signal_def network_inv_def split: prod.splits)
next
  case False
  then show ?thesis
    by (cases x) (auto simp: predict_def feedward_signal_def)
qed

lemma same_forward_of_weights:
  assumes "list_all layer_inv ls1" "list_all layer_inv ls2"
    "list_all2 (\<lambda>l1 l2. weights l1 = weights l2 \<and> activation l1 = activation l2) ls1 ls2"
  shows "list_all2 same_forward ls1 ls2"
  using assms(3,1,2)
  by (induction rule: list_all2_induct)
     (auto simp: same_forward_def layer_inv_def split: ndarray.splits)

lemma predict_same_weights:
  assumes "network_inv a" "network_inv b"
    "list_all2 (\<lambda>l1 l2. weights l1 = weights l2 \<and> activation l1 = activation l2)
       (layers a) (layers b)"
  shows "fst (predict a x) = fst (predict b x)"
proof -
  have sf: "list_all2 same_forward (layers a) (layers b)"
    using assms by (intro same_forward_of_weights) (simp_all add: network_inv_def)
  then have len: "length (layers a) = length (layers b)" by (rule list_all2_lengthD)
  have dim: "input_dimension a = input_dimension b"
  proof (cases "layers a")
    case Nil
    then show ?thesis using assms(1,2) len by (simp add: network_inv_def)
  next
    case (Cons l ls)
    then obtain l' ls' where b: "layers b = l' # ls'" using len by (cases "layers b") auto
    then show ?thesis using assms(1,2) sf Cons by (simp add: network_inv_def same_forward_def)
  qed
  show ?thesis
    using feed_layers_same_forward[OF sf, of x] dim len
    by (cases x) (auto simp: predict_def feedward_signal_def split: prod.splits)
qed

text \<open>
  C9. Two networks in the state the constructor and the methods keep, whose layers have the
  same weights and activations pairwise, give the same result (exception or output) for
  \<open>predict\<close> on the same input, whatever their caches, schedules and hyperparameters are;
  and a second call of \<open>predict\<close> on the same input gives the result of the first.
\<close>

theorem predict_deterministic:
  fixes nn1 nn2 :: "('a::semiring_1, 's) NeuralNetwork"
  assumes "network_inv nn1" "network_inv nn2"
    "list_all2 (\<lambda>l1 l2. weights l1 = weights l2 \<and> activation l1 = activation l2)
       (layers nn1) (layers nn2)"
  shows "fst (predict nn1 x) = fst (predict nn2 x) \<and>
         fst (predict (snd (predict nn1 x)) x) = fst (predict nn1 x)"
proof -
  have "list_all2 (\<lambda>l1 l2. weights l1 = weights l2 \<and> activation l1 = activation l2)
          (layers (snd (predict nn1 x))) (layers nn1)"
    using predict_frame[of nn1 x]
    by (simp add: list_all2_conv_all_nth list_eq_iff_nth_eq)
  then show ?thesis
    using predict_same_weights[OF assms] predict_same_weights[of "snd (predict nn1 x)" nn1]
      predict_frame[of nn1 x] assms(1)
    by simp
qed

lemma demo_network_constructed:
  "\<exists>nn0. NeuralNetwork_init demo_modules 2 ''batch'' ''first'' [] 0 0 3 = Inr nn0 \<and>
         add_layer nn0 (LayerObject demo_layer) = (Inr (), demo_network ''batch'' 3)"
  by (simp add: NeuralNetwork_init_def check_max_epochs_def check_optimizer_def
      check_batch_size_def check_momentum_def check_regularization_def check_metric_def
      check_loss_def demo_modules_def add_layer_def demo_network_def demo_layer_def)

lemma demo_network_inv: "network_inv (demo_network opt bs)"
  using demo_layer_inv by (simp add: network_inv_def demo_network_def demo_layer_def)

text \<open>
  The statement of C7: \<open>demo_layer\<close>, with two inputs, is refused by the network whose last
  layer has one unit, and accepted by the network without layers.
\<close>

theorem add_layer_spec_witness:
  "network_inv (demo_network ''batch'' 3) \<and>
   layers (demo_network ''batch'' 3) \<noteq> [] \<and>
   num_input demo_layer \<noteq> int (num_unit (last (layers (demo_network ''batch'' 3)))) \<and>
   add_layer (demo_network ''batch'' 3) (LayerObject demo_layer) =
     (Inl ValueError, demo_network ''batch'' 3) \<and>
   network_inv ((demo_network ''batch'' 3)\<lparr>input_dimension := 0, output_dimension := 0,
                  layers := [], topology := []\<rparr>) \<and>
   add_layer ((demo_network ''batch'' 3)\<lparr>input_dimension := 0, output_dimension := 0,
                  layers := [], topology := []\<rparr>) (LayerObject demo_layer) =
     (Inr (), demo_network ''batch'' 3)"
proof -
  let ?empty = "(demo_network ''batch'' 3)\<lparr>input_dimension := 0, output_dimension := 0,
                  layers := [], topology := []\<rparr>"
  have inv0: "network_inv ?empty" by (simp add: network_inv_def)
  show ?thesis
    using add_layer_spec[OF demo_network_inv, of "''batch''" 3 demo_layer]
      add_layer_spec[OF inv0, of demo_layer] demo_network_inv[of "''batch''" 3] inv0
    by (simp add: demo_network_def demo_layer_def)
qed

text \<open>
  The statement of C8 for the epoch counts \<open>0\<close> and \<open>2\<close>.
\<close>

theorem NeuralNetwork_init_max_epochs_witness:
  "NeuralNetwork_init demo_modules 0 ''batch'' ''first'' [] 0 0 3 = Inl InvalidNeuralNetwork \<and>
   check_max_epochs 2 = Inr 2 \<and>
   NeuralNetwork_init demo_modules 2 ''batch'' ''first'' [] 0 0 3 =
     Inr ((demo_network ''batch'' 3)\<lparr>input_dimension := 0, output_dimension := 0,
            layers := [], topology := []\<rparr>) \<and>
   max_epochs ((demo_network ''batch'' 3)\<lparr>input_dimension := 0, output_dimension := 0,
            layers := [], topology := []\<rparr>) = 2"
proof -
  have ok: "NeuralNetwork_init demo_modules 2 ''batch'' ''first'' [] 0 0 3 =
     Inr ((demo_network ''batch'' 3)\<lparr>input_dimension := 0, output_dimension := 0,
            layers := [], topology := []\<rparr>)"
    by (simp add: NeuralNetwork_init_def check_max_epochs_def check_optimizer_def
      check_batch_size_def check_momentum_def check_regularization_def check_metric_def
      check_loss_def demo_modules_def demo_network_def)
  show ?thesis
    using NeuralNetwork_init_max_epochs[of 0 demo_modules "''batch''" "''first''" "[]" 0 0 3]
      NeuralNetwork_init_max_epochs[of 2 demo_modules "''batch''" "''first''" "[]" 0 0 3] ok
    by simp
qed

text \<open>
  The statement of C9 on two networks that differ in optimizer, batch size and the caches
  of their layer.
\<close>

theorem predict_deterministic_witness:
  "network_inv (demo_network ''batch'' 3) \<and>
   network_inv ((demo_network ''SGD'' 7)\<lparr>layers := [demo_layer_forward]\<rparr>) \<and>
   list_all2 (\<lambda>l1 l2. weights l1 = weights l2 \<and> activation l1 = activation l2)
     (layers (demo_network ''batch'' 3))
     (layers ((demo_network ''SGD'' 7)\<lparr>layers := [demo_layer_forward]\<rparr>)) \<and>
   fst (predict (demo_network ''batch'' 3) (Mat 2 [[4, 5]])) = Inr (Mat 1 [[24]]) \<and>
   fst (predict ((demo_network ''SGD'' 7)\<lparr>layers := [demo_layer_forward]\<rparr>) (Mat 2 [[4, 5]]))
     = Inr (Mat 1 [[24]]) \<and>
   fst (predict (snd (predict (demo_network ''batch'' 3) (Mat 2 [[4, 5]]))) (Mat 2 [[4, 5]]))
     = Inr (Mat 1 [[24]])"
proof -
  let ?nn2 = "(demo_network ''SGD'' 7)\<lparr>layers := [demo_layer_forward]\<rparr>"
  have inv2: "network_inv ?nn2"
    using demo_layer_inv
    by (simp add: network_inv_def demo_network_def demo_layer_forward_def layer_inv_def demo_layer_def)
  have same: "list_all2 (\<lambda>l1 l2. weights l1 = weights l2 \<and> activation l1 = activation l2)
     (layers (demo_network ''batch'' 3)) (layers ?nn2)"
    by (simp add: demo_network_def demo_layer_forward_def)
  have p1: "fst (predict (demo_network ''batch'' 3) (Mat 2 [[4, 5]])) = Inr (Mat 1 [[24]])"
    using demo_layer_forward_run by (simp add: predict_def feedward_signal_def demo_network_def)
  show ?thesis
    using predict_deterministic[OF demo_network_inv inv2 same, of "Mat 2 [[4, 5]]"]
      demo_network_inv[of "''batch''" 3] inv2 same p1
    by simp
qed

section \<open>Properties of training\<close>

lemma train_windows_frame:
  "st_training_examples (snd (train_windows M lc idxs st)) = st_training_examples st \<and>
   st_random (snd (train_windows M lc idxs st)) = st_random st \<and>
   st_report (snd (train_windows M lc idxs st)) = st_report st \<and>
   (optimizer_keeps_schedules M \<longrightarrow> schedules (snd (train_windows M lc idxs st)) = schedules st)"
proof (induction idxs arbitrary: st)
  case Nil
  then show ?case by simp
next
  case (Cons index rest)
  show ?case
  proof (cases "optimizer_implemented M (optimizer (st_self st))")
    case None
    then show ?thesis by simp
  next
    case (Some bp)
    show ?thesis
    proof (cases "loss_functions M (loss (st_self st))")
      case None
      then show ?thesis using Some by simp
    next
      case lf: (Some lf)
      let ?w = "py_slice (st_training_examples st) (index * batch_size (st_self st))
                  ((index + 1) * batch_size (st_self st))"
      obtain r self1 where bp: "bp (st_self st) ?w (batch_total_samples_ratio lc) lf = (r, self1)"
        by (cases "bp (st_self st) ?w (batch_total_samples_ratio lc) lf")
      have keep: "optimizer_keeps_schedules M \<Longrightarrow>
                    map learning_rates (layers self1) = map learning_rates (layers (st_self st))"
        using Some bp unfolding optimizer_keeps_schedules_def by (metis snd_conv)
      show ?thesis
      proof (cases r)
        case (Inl e)
        then show ?thesis using Some lf bp keep by (simp add: Let_def schedules_def)
      next
        case (Inr u)
        then show ?thesis
          using Some lf bp keep Cons.IH[of "st\<lparr>st_self := self1\<rparr>"]
          by (simp add: Let_def schedules_def)
      qed
    qed
  qed
qed

lemma epoch_train_frame:
  "(st_training_examples (snd (epoch_train M lc st)), st_random (snd (epoch_train M lc st)))
      = shuffle_step M (st_training_examples st, st_random st) \<and>
   st_report (snd (epoch_train M lc st)) = st_report st \<and>
   (optimizer_keeps_schedules M \<longrightarrow> schedules (snd (epoch_train M lc st)) = schedules st)"
proof -
  obtain shuffled g where sh: "random_shuffle M (st_random st) (st_training_examples st) = (shuffled, g)"
    by (cases "random_shuffle M (st_random st) (st_training_examples st)")
  show ?thesis
    using sh train_windows_frame[of M lc "map int [0..<nat (num_window lc)]"
        "st\<lparr>st_training_examples := shuffled, st_random := g\<rparr>"]
    by (simp add: epoch_train_def shuffle_step_def schedules_def)
qed

lemma predict_schedules:
  "map learning_rates (layers (snd (predict nn x))) = map learning_rates (layers nn)"
  using predict_frame[of nn x] by simp

lemma epoch_training_error_frame:
  assumes "epoch_training_error M lc e st = (r, st')"
  shows "st_training_examples st' = st_training_examples st \<and> st_random st' = st_random st \<and>
         schedules st' = schedules st \<and>
         (\<forall>err. r = Inr err \<longrightarrow>
            training_error (st_report st') = training_error (st_report st) @ [(e, err)] \<and>
            (\<exists>lf predicted. loss_functions M (loss (st_self st)) = Some lf \<and>
               fst (predict (st_self st) (inputs_training lc)) = Inr predicted \<and>
               err = loss_fn lf predicted (targets_training lc)))"
proof -
  obtain p self1 where pr: "predict (st_self st) (inputs_training lc) = (p, self1)"
    by (cases "predict (st_self st) (inputs_training lc)")
  have sch: "map learning_rates (layers self1) = map learning_rates (layers (st_self st))"
    using predict_schedules[of "st_self st" "inputs_training lc"] pr by simp
  have ls: "loss self1 = loss (st_self st)"
    using pr by (cases "inputs_training lc")
      (auto simp: predict_def feedward_signal_def split: if_splits prod.splits)
  show ?thesis
    using assms pr sch ls
    by (auto simp: epoch_training_error_def schedules_def Let_def add_training_error_def
        add_training_accuracy_def split: sum.splits option.splits if_splits)
qed

lemma epoch_validation_frame:
  assumes "epoch_validation M lc e err st = (r, st')"
  shows "st_training_examples st' = st_training_examples st \<and> st_random st' = st_random st \<and>
         schedules st' = schedules st \<and>
         training_error (st_report st') = training_error (st_report st)"
proof (cases "validation_arrays lc")
  case None
  then show ?thesis using assms by (auto simp: epoch_validation_def)
next
  case (Some a)
  obtain iv tv where a: "a = (iv, tv)" by (cases a)
  obtain p self1 where pr: "predict (st_self st) iv = (p, self1)"
    by (cases "predict (st_self st) iv")
  have sch: "map learning_rates (layers self1) = map learning_rates (layers (st_self st))"
    using predict_schedules[of "st_self st" iv] pr by simp
  show ?thesis
    using assms Some a pr sch
    by (auto simp: epoch_validation_def schedules_def Let_def add_validation_error_def
        add_validation_accuracy_def split: sum.splits option.splits if_splits)
qed

lemma predict_each_schedules:
  "map learning_rates (layers (snd (predict_each nn xs))) = map learning_rates (layers nn)"
proof (induction xs arbitrary: nn)
  case Nil
  then show ?case by simp
next
  case (Cons x xs)
  obtain p self1 where pr: "predict nn (Vec x) = (p, self1)" by (cases "predict nn (Vec x)")
  have sch: "map learning_rates (layers self1) = map learning_rates (layers nn)"
    using predict_schedules[of nn "Vec x"] pr by simp
  show ?case
    using pr sch Cons.IH[of self1]
    by (auto split: sum.splits prod.splits)
qed

lemma epoch_test_frame:
  assumes "epoch_test M lc e st = (r, st')"
  shows "st_training_examples st' = st_training_examples st \<and> st_random st' = st_random st \<and>
         schedules st' = schedules st \<and>
         training_error (st_report st') = training_error (st_report st)"
proof (cases "\<exists>t ts. test_samples lc = Some (t # ts)")
  case True
  then obtain t ts where ts: "test_samples lc = Some (t # ts)" by blast
  obtain p self1 where pe: "predict_each (st_self st) (map fst (t # ts)) = (p, self1)"
    by (cases "predict_each (st_self st) (map fst (t # ts))")
  have sch: "map learning_rates (layers self1) = map learning_rates (layers (st_self st))"
    using predict_each_schedules[of "st_self st" "map fst (t # ts)"] pe by simp
  show ?thesis
    using assms ts pe sch
    by (auto simp: epoch_test_def schedules_def Let_def add_test_error_def
        simp del: predict_each.simps list.map split: sum.splits option.splits)
next
  case False
  then show ?thesis
    using assms by (auto simp: epoch_test_def split: option.splits list.splits)
qed

lemma fit_epoch_summary:
  assumes "fit_epoch M lc e st = (out, st')"
  shows "(st_training_examples st', st_random st')
           = shuffle_step M (st_training_examples st, st_random st)"
    and "out \<noteq> Break \<and> out \<noteq> Continue \<longrightarrow> (\<exists>x. out = Raise x)"
    and "out = Break \<or> out = Continue \<longrightarrow>
           (\<exists>err lf predicted.
              training_error (st_report st') = training_error (st_report st) @ [(e, err)] \<and>
              loss_functions M (loss (st_self (snd (epoch_train M lc st)))) = Some lf \<and>
              fst (predict (st_self (snd (epoch_train M lc st))) (inputs_training lc)) = Inr predicted \<and>
              err = loss_fn lf predicted (targets_training lc) \<and>
              (out = Break \<longleftrightarrow> err \<le> min_error lc))"
    and "optimizer_keeps_schedules M \<longrightarrow>
           (out = Break \<longrightarrow> schedules st' = schedules st) \<and>
           (out = Continue \<longrightarrow> schedules st' = map (advance_schedule e) (schedules st))"
proof -
  obtain r1 st1 where s1: "epoch_train M lc st = (r1, st1)" by (cases "epoch_train M lc st")
  obtain r2 st2 where s2: "epoch_training_error M lc e st1 = (r2, st2)"
    by (cases "epoch_training_error M lc e st1")
  note f1 = epoch_train_frame[of M lc st, unfolded s1, simplified]
  note f2 = epoch_training_error_frame[OF s2]
  have adv: "map learning_rates (map (\<lambda>layer. update_learning_rate layer e) ls)
               = map (advance_schedule e) (map learning_rates ls)" for ls :: "('a, 'b) layer list"
    by (simp add: update_learning_rate_def advance_schedule_def)
  have all: "((st_training_examples st', st_random st')
           = shuffle_step M (st_training_examples st, st_random st)) \<and>
     (out \<noteq> Break \<and> out \<noteq> Continue \<longrightarrow> (\<exists>x. out = Raise x)) \<and>
     (out = Break \<or> out = Continue \<longrightarrow>
           (\<exists>err lf predicted.
              training_error (st_report st') = training_error (st_report st) @ [(e, err)] \<and>
              loss_functions M (loss (st_self st1)) = Some lf \<and>
              fst (predict (st_self st1) (inputs_training lc)) = Inr predicted \<and>
              err = loss_fn lf predicted (targets_training lc) \<and>
              (out = Break \<longleftrightarrow> err \<le> min_error lc))) \<and>
     (optimizer_keeps_schedules M \<longrightarrow>
           (out = Break \<longrightarrow> schedules st' = schedules st) \<and>
           (out = Continue \<longrightarrow> schedules st' = map (advance_schedule e) (schedules st)))"
  proof (cases r1)
    case (Inl x)
    then show ?thesis using assms s1 f1 by (auto simp: fit_epoch_def)
  next
    case r1: (Inr u1)
    show ?thesis
    proof (cases r2)
      case (Inl x)
      then show ?thesis using assms s1 r1 s2 f1 f2 by (auto simp: fit_epoch_def)
    next
      case r2: (Inr err)
      obtain r3 st3 where s3: "epoch_validation M lc e err st2 = (r3, st3)"
        by (cases "epoch_validation M lc e err st2")
      note f3 = epoch_validation_frame[OF s3]
      show ?thesis
      proof (cases r3)
        case (Inl x)
        then show ?thesis using assms s1 r1 s2 r2 s3 f1 f2 f3 by (auto simp: fit_epoch_def)
      next
        case r3: (Inr u3)
        obtain r4 st4 where s4: "epoch_test M lc e st3 = (r4, st4)"
          by (cases "epoch_test M lc e st3")
        note f4 = epoch_test_frame[OF s4]
        show ?thesis
        proof (cases r4)
          case (Inl x)
          then show ?thesis using assms s1 r1 s2 r2 s3 r3 s4 f1 f2 f3 f4 by (auto simp: fit_epoch_def)
        next
          case r4: (Inr u4)
          have out: "(out, st') = (if err \<le> min_error lc then (Break, st4)
                else (Continue, st4\<lparr>st_self := (st_self st4)\<lparr>layers :=
                  map (\<lambda>layer. update_learning_rate layer e) (layers (st_self st4))\<rparr>\<rparr>))"
            using assms s1 r1 s2 r2 s3 r3 s4 r4 by (simp add: fit_epoch_def)
          show ?thesis
          proof (cases "err \<le> min_error lc")
            case True
            then show ?thesis using out r2 f1 f2 f3 f4 by auto
          next
            case False
            then have o: "out = Continue" and st': "st' = st4\<lparr>st_self := (st_self st4)\<lparr>layers :=
                  map (\<lambda>layer. update_learning_rate layer e) (layers (st_self st4))\<rparr>\<rparr>"
              using out by simp_all
            have "schedules st' = map (advance_schedule e) (schedules st4)"
              unfolding st' schedules_def using adv by simp
            then show ?thesis using o st' False r2 f1 f2 f3 f4 by auto
          qed
        qed
      qed
    qed
  qed
  show "(st_training_examples st', st_random st')
           = shuffle_step M (st_training_examples st, st_random st)"
    and "out \<noteq> Break \<and> out \<noteq> Continue \<longrightarrow> (\<exists>x. out = Raise x)"
    and "out = Break \<or> out = Continue \<longrightarrow>
           (\<exists>err lf predicted.
              training_error (st_report st') = training_error (st_report st) @ [(e, err)] \<and>
              loss_functions M (loss (st_self (snd (epoch_train M lc st)))) = Some lf \<and>
              fst (predict (st_self (snd (epoch_train M lc st))) (inputs_training lc)) = Inr predicted \<and>
              err = loss_fn lf predicted (targets_training lc) \<and>
              (out = Break \<longleftrightarrow> err \<le> min_error lc))"
    and "optimizer_keeps_schedules M \<longrightarrow>
           (out = Break \<longrightarrow> schedules st' = schedules st) \<and>
           (out = Continue \<longrightarrow> schedules st' = map (advance_schedule e) (schedules st))"
    using all s1 by simp_all
qed

lemma epoch_loop_summary:
  assumes "epoch_loop M lc es st = (r, st')"
  shows "\<exists>k \<le> length es.
           (st_training_examples st', st_random st')
             = (shuffle_step M ^^ k) (st_training_examples st, st_random st) \<and>
           (es \<noteq> [] \<longrightarrow> 1 \<le> k) \<and>
           (r = Inr () \<longrightarrow> (\<exists>new. length new = k \<and> epochs_summary M lc es st st' new))"
  using assms
proof (induction es arbitrary: st)
  case Nil
  then show ?case by (simp add: epochs_summary_def)
next
  case (Cons e es)
  obtain out st1 where ep: "fit_epoch M lc e st = (out, st1)" by (cases "fit_epoch M lc e st")
  note S = fit_epoch_summary[OF ep]
  have one: "(st_training_examples st1, st_random st1)
               = (shuffle_step M ^^ 1) (st_training_examples st, st_random st)"
    using S(1) by simp
  show ?case
  proof (cases out)
    case (Raise x)
    then have "r = Inl x" "st' = st1" using Cons.prems ep by simp_all
    then show ?thesis using one by (intro exI[of _ 1]) simp
  next
    case Break
    then have r: "r = Inr ()" "st' = st1" using Cons.prems ep by simp_all
    from S(3) Break obtain err where
      e: "training_error (st_report st1) = training_error (st_report st) @ [(e, err)]"
        "err \<le> min_error lc"
      by auto
    have "epochs_summary M lc (e # es) st st1 [(e, err)]"
      using e S(4) Break by (simp add: epochs_summary_def)
    then have "\<exists>new. length new = 1 \<and> epochs_summary M lc (e # es) st st1 new"
      by (intro exI[of _ "[(e, err)]"]) simp
    then show ?thesis using one r by (intro exI[of _ 1]) simp
  next
    case Continue
    then have loop: "epoch_loop M lc es st1 = (r, st')" using Cons.prems ep by simp
    from S(3) Continue obtain err where
      e: "training_error (st_report st1) = training_error (st_report st) @ [(e, err)]"
        "\<not> err \<le> min_error lc"
      by auto
    from Cons.IH[OF loop] obtain k where
      k: "k \<le> length es"
        "(st_training_examples st', st_random st')
           = (shuffle_step M ^^ k) (st_training_examples st1, st_random st1)"
        "r = Inr () \<longrightarrow> (\<exists>new. length new = k \<and> epochs_summary M lc es st1 st' new)"
      by blast
    have sh: "(st_training_examples st', st_random st')
           = (shuffle_step M ^^ Suc k) (st_training_examples st, st_random st)"
      using k(2) S(1) by (simp add: funpow_swap1)
    have sm: "\<exists>new. length new = Suc k \<and> epochs_summary M lc (e # es) st st' new" if "r = Inr ()"
    proof -
      from k(3) that obtain new where n: "length new = k" "epochs_summary M lc es st1 st' new"
        by blast
      have bl: "butlast ((e, err) # new) = (if new = [] then [] else (e, err) # butlast new)"
        by simp
      have "epochs_summary M lc (e # es) st st' ((e, err) # new)"
        using n(2) e S(4) Continue unfolding epochs_summary_def bl
        by auto
      then show ?thesis using n(1) by (intro exI[of _ "(e, err) # new"]) simp
    qed
    show ?thesis
      using k(1) sh sm by (intro exI[of _ "Suc k"]) auto
  qed
qed

lemma fit_setup_frame:
  assumes "fit_setup self xs v t m = (r, self1)"
  shows "max_epochs self1 = max_epochs self \<and> layers self1 = layers self \<and>
         self1 = (if optimizer self = ''SGD'' then self\<lparr>batch_size := int (length xs)\<rparr> else self) \<and>
         (\<forall>lc. r = Inr lc \<longrightarrow>
            min_error lc = m \<and>
            np_array (map fst xs) = Inr (inputs_training lc) \<and>
            np_array (map snd xs) = Inr (targets_training lc) \<and>
            compute_num_window (int (length xs)) (batch_size self1) = Inr (num_window lc) \<and>
            batch_total_samples_ratio lc = of_int (batch_size self1) / of_int (int (length xs)) \<and>
            xs \<noteq> [])"
  using assms
  by (auto simp: fit_setup_def Let_def split: sum.splits if_splits)

lemma fit_summary:
  assumes "fit M self xs v t m g = (r, st)"
  shows "\<exists>k \<le> nat (max_epochs self).
           (st_training_examples st, st_random st) = (shuffle_step M ^^ k) (xs, g) \<and>
           ((\<exists>lc. fst (fit_setup self xs v t m) = Inr lc) \<and> 0 < max_epochs self \<longrightarrow> 1 \<le> k) \<and>
           (\<forall>report. r = Inr report \<longrightarrow>
              report = st_report st \<and> length (training_error report) = k \<and>
              (\<exists>lc self1. fit_setup self xs v t m = (Inr lc, self1) \<and>
                 epochs_summary M lc (map int [0..<nat (max_epochs self)])
                   \<lparr> st_self = self1, st_training_examples = xs, st_random = g,
                     st_report = Report_init (max_epochs self) m \<rparr> st (training_error report)))"
proof -
  obtain r0 self1 where su: "fit_setup self xs v t m = (r0, self1)"
    by (cases "fit_setup self xs v t m")
  note fr = fit_setup_frame[OF su]
  show ?thesis
  proof (cases r0)
    case (Inl e)
    then show ?thesis using assms su by (intro exI[of _ 0]) (auto simp: fit_def)
  next
    case (Inr lc)
    let ?st0 = "\<lparr> st_self = self1, st_training_examples = xs, st_random = g,
                  st_report = Report_init (max_epochs self) m \<rparr>"
    let ?es = "map int [0..<nat (max_epochs self)]"
    obtain r1 st1 where lp: "epoch_loop M lc ?es ?st0 = (r1, st1)"
      by (cases "epoch_loop M lc ?es ?st0")
    from epoch_loop_summary[OF lp] obtain k where
      k: "k \<le> length ?es"
        "(st_training_examples st1, st_random st1) = (shuffle_step M ^^ k) (xs, g)"
        "?es \<noteq> [] \<longrightarrow> 1 \<le> k"
        "r1 = Inr () \<longrightarrow> (\<exists>new. length new = k \<and> epochs_summary M lc ?es ?st0 st1 new)"
      by auto
    have k1: "1 \<le> k" if "0 < max_epochs self"
      using k(3) that by simp
    have me: "max_epochs self1 = max_epochs self" using fr by simp
    have "fit M self xs v t m g =
            (case epoch_loop M lc (map int [0..<nat (max_epochs self1)]) ?st0 of
               (Inl e, st) \<Rightarrow> (Inl e, st) | (Inr u, st) \<Rightarrow> (Inr (st_report st), st))"
      by (simp only: fit_def Let_def su Inr prod.case sum.case)
    then have res: "(r, st) = (case r1 of Inl e \<Rightarrow> (Inl e, st1) | Inr u \<Rightarrow> (Inr (st_report st1), st1))"
      using assms unfolding me lp by (simp split: sum.splits)
    have st: "st = st1" using res by (cases r1) simp_all
    have rep: "report = st_report st1 \<and> length (training_error report) = k \<and>
                 epochs_summary M lc ?es ?st0 st1 (training_error report)"
      if "r = Inr report" for report
    proof -
      have r1: "r1 = Inr ()" and rp: "report = st_report st1"
        using res that by (cases r1; simp)+
      from k(4) r1 obtain new where n: "length new = k" "epochs_summary M lc ?es ?st0 st1 new"
        by blast
      then have "training_error (st_report st1) = new"
        by (simp add: epochs_summary_def Report_init_def)
      then show ?thesis using n rp by simp
    qed
    show ?thesis
      using k(1,2) k1 rep st su Inr by (intro exI[of _ k]) auto
  qed
qed

lemma shuffle_steps_mset:
  "shuffle_permutes M \<Longrightarrow> mset (fst ((shuffle_step M ^^ k) (xs, g))) = mset xs"
proof (induction k)
  case 0
  then show ?case by simp
next
  case (Suc k)
  obtain ys h where p: "(shuffle_step M ^^ k) (xs, g) = (ys, h)"
    by (cases "(shuffle_step M ^^ k) (xs, g)")
  then have "mset ys = mset xs" using Suc by simp
  moreover have "mset (fst (random_shuffle M h ys)) = mset ys"
    using Suc.prems by (simp add: shuffle_permutes_def)
  ultimately show ?case using p by (simp add: shuffle_step_def)
qed

lemma train_windows_refines:
  assumes "train_windows M lc idxs st = (Inr u, st')"
  shows "spec_windows M (batch_total_samples_ratio lc) (st_training_examples st) idxs (st_self st)
           = Some (st_self st') \<and> st' = st\<lparr>st_self := st_self st'\<rparr>"
  using assms
proof (induction idxs arbitrary: st)
  case Nil
  then show ?case by simp
next
  case (Cons index rest)
  from Cons.prems obtain bp lf where
    o: "optimizer_implemented M (optimizer (st_self st)) = Some bp"
      "loss_functions M (loss (st_self st)) = Some lf"
    by (auto simp: Let_def split: option.splits)
  let ?w = "py_slice (st_training_examples st) (index * batch_size (st_self st))
              ((index + 1) * batch_size (st_self st))"
  obtain r nn1 where bp: "bp (st_self st) ?w (batch_total_samples_ratio lc) lf = (r, nn1)"
    by (cases "bp (st_self st) ?w (batch_total_samples_ratio lc) lf")
  from Cons.prems o bp have r: "r = Inr ()"
    and rec: "train_windows M lc rest (st\<lparr>st_self := nn1\<rparr>) = (Inr u, st')"
    by (auto simp: Let_def split: sum.splits)
  from Cons.IH[OF rec] show ?case
    using o bp r by simp
qed

lemma epoch_train_refines:
  assumes "epoch_train M lc p = (Inr u, p1)"
  shows "spec_windows M (batch_total_samples_ratio lc)
           (fst (random_shuffle M (st_random p) (st_training_examples p)))
           (map int [0..<nat (num_window lc)]) (st_self p) = Some (st_self p1) \<and>
         p1 = p\<lparr>st_training_examples := fst (random_shuffle M (st_random p) (st_training_examples p)),
                st_random := snd (random_shuffle M (st_random p) (st_training_examples p)),
                st_self := st_self p1\<rparr>"
proof -
  obtain sh g1 where sh: "random_shuffle M (st_random p) (st_training_examples p) = (sh, g1)"
    by (cases "random_shuffle M (st_random p) (st_training_examples p)")
  from assms sh have tw: "train_windows M lc (map int [0..<nat (num_window lc)])
      (p\<lparr>st_training_examples := sh, st_random := g1\<rparr>) = (Inr u, p1)"
    by (simp add: epoch_train_def)
  from train_windows_refines[OF tw] show ?thesis
    using sh by simp
qed

lemma epoch_training_error_refines:
  assumes "epoch_training_error M lc e p1 = (Inr err, p2)"
  shows "spec_training_loss M lc e (st_self p1, st_report p1) = Some (err, st_self p2, st_report p2) \<and>
         p2 = p1\<lparr>st_self := st_self p2, st_report := st_report p2\<rparr>"
proof -
  obtain r nn1 where pr: "predict (st_self p1) (inputs_training lc) = (r, nn1)"
    by (cases "predict (st_self p1) (inputs_training lc)")
  show ?thesis
    using assms pr
    by (auto simp: epoch_training_error_def spec_training_loss_def spec_predict_loss_def Let_def
        split: sum.splits option.splits if_splits)
qed

lemma epoch_validation_refines:
  assumes "epoch_validation M lc e err p2 = (Inr u, p3)"
  shows "spec_validation M lc e err (st_self p2, st_report p2) = Some (st_self p3, st_report p3) \<and>
         p3 = p2\<lparr>st_self := st_self p3, st_report := st_report p3\<rparr>"
proof (cases "validation_arrays lc")
  case None
  then show ?thesis using assms by (auto simp: epoch_validation_def spec_validation_def)
next
  case (Some a)
  obtain XV TV where a: "a = (XV, TV)" by (cases a)
  obtain r nn1 where pr: "predict (st_self p2) XV = (r, nn1)"
    by (cases "predict (st_self p2) XV")
  show ?thesis
    using assms Some a pr
    by (auto simp: epoch_validation_def spec_validation_def spec_predict_loss_def Let_def
        split: sum.splits option.splits if_splits)
qed

lemma predict_each_refines:
  "predict_each nn xs = (Inr ps, nn') \<Longrightarrow> spec_predict_each nn xs = Some (ps, nn')"
proof (induction xs arbitrary: nn ps)
  case Nil
  then show ?case by simp
next
  case (Cons x xs)
  obtain r nn1 where pr: "predict nn (Vec x) = (r, nn1)" by (cases "predict nn (Vec x)")
  from Cons.prems pr obtain p where r: "r = Inr p" by (cases r) auto
  obtain r2 nn2 where pe: "predict_each nn1 xs = (r2, nn2)" by (cases "predict_each nn1 xs")
  from Cons.prems pr r pe obtain ps' where r2: "r2 = Inr ps'" "ps = p # ps'" "nn' = nn2"
    by (cases r2) auto
  from Cons.IH[of nn1 ps'] pe r2 have "spec_predict_each nn1 xs = Some (ps', nn2)" by simp
  then show ?case using pr r r2 by simp
qed

lemma epoch_test_refines:
  assumes "epoch_test M lc e p3 = (Inr u, p4)"
  shows "spec_test M lc e (st_self p3, st_report p3) = Some (st_self p4, st_report p4) \<and>
         p4 = p3\<lparr>st_self := st_self p4, st_report := st_report p4\<rparr>"
proof (cases "\<exists>t ts. test_samples lc = Some (t # ts)")
  case True
  then obtain t ts where ts: "test_samples lc = Some (t # ts)" by blast
  from assms ts obtain lf where lf: "loss_functions M (loss (st_self p3)) = Some lf"
    by (auto simp: epoch_test_def split: option.splits)
  obtain r nn1 where pe: "predict_each (st_self p3) (map fst (t # ts)) = (r, nn1)"
    by (cases "predict_each (st_self p3) (map fst (t # ts))")
  from assms ts lf pe obtain ps where r: "r = Inr ps"
    by (cases r) (auto simp: epoch_test_def simp del: predict_each.simps list.map)
  note sp = predict_each_refines[OF pe[unfolded r]]
  show ?thesis
    using assms ts lf pe r sp
    by (auto simp: epoch_test_def spec_test_def Let_def
        simp del: predict_each.simps spec_predict_each.simps list.map)
next
  case False
  then show ?thesis
    using assms by (auto simp: epoch_test_def spec_test_def split: option.splits list.splits)
qed

lemma fit_epoch_refines:
  assumes "fit_epoch M lc e p = (out, q)" and "out = Break \<or> out = Continue"
  shows "spec_epoch M lc e p = Some (out = Break, q)"
proof -
  obtain r1 p1 where s1: "epoch_train M lc p = (r1, p1)" by (cases "epoch_train M lc p")
  from assms s1 obtain u1 where r1: "r1 = Inr u1"
    by (cases r1) (auto simp: fit_epoch_def)
  obtain r2 p2 where s2: "epoch_training_error M lc e p1 = (r2, p2)"
    by (cases "epoch_training_error M lc e p1")
  from assms s1 r1 s2 obtain err where r2: "r2 = Inr err"
    by (cases r2) (auto simp: fit_epoch_def)
  obtain r3 p3 where s3: "epoch_validation M lc e err p2 = (r3, p3)"
    by (cases "epoch_validation M lc e err p2")
  from assms s1 r1 s2 r2 s3 obtain u3 where r3: "r3 = Inr u3"
    by (cases r3) (auto simp: fit_epoch_def)
  obtain r4 p4 where s4: "epoch_test M lc e p3 = (r4, p4)"
    by (cases "epoch_test M lc e p3")
  from assms s1 r1 s2 r2 s3 r3 s4 obtain u4 where r4: "r4 = Inr u4"
    by (cases r4) (auto simp: fit_epoch_def)
  have res: "(out, q) = (if err \<le> min_error lc then (Break, p4)
               else (Continue, p4\<lparr>st_self := (st_self p4)\<lparr>layers :=
                  map (\<lambda>layer. update_learning_rate layer e) (layers (st_self p4))\<rparr>\<rparr>))"
    using assms(1) s1 r1 s2 r2 s3 r3 s4 r4 by (simp add: fit_epoch_def)
  note f1 = epoch_train_refines[OF s1[unfolded r1]]
  note f2 = epoch_training_error_refines[OF s2[unfolded r2]]
  note f3 = epoch_validation_refines[OF s3[unfolded r3]]
  note f4 = epoch_test_refines[OF s4[unfolded r4]]
  obtain sh g1 where sh: "random_shuffle M (st_random p) (st_training_examples p) = (sh, g1)"
    by (cases "random_shuffle M (st_random p) (st_training_examples p)")
  have rep1: "st_report p1 = st_report p" using f1 by (metis fit_state.select_convs(4) fit_state.surjective fit_state.update_convs(1,2,3))
  have p4: "p4 = \<lparr> st_self = st_self p4, st_training_examples = sh, st_random = g1,
                    st_report = st_report p4 \<rparr>"
  proof -
    have "st_training_examples p4 = sh \<and> st_random p4 = g1"
      using f1 f2 f3 f4 sh
      by (metis fit_state.select_convs(2,3) fit_state.surjective fit_state.update_convs(1,2,3,4) fst_conv snd_conv)
    then show ?thesis by (cases p4) simp
  qed
  show ?thesis
  proof (cases "err \<le> min_error lc")
    case True
    then have "out = Break" "q = p4" using res by simp_all
    then show ?thesis
      using True f1 f2 f3 f4 sh rep1 p4 by (simp add: spec_epoch_def)
  next
    case False
    then have o: "out = Continue" and q: "q = p4\<lparr>st_self := (st_self p4)\<lparr>layers :=
                  map (\<lambda>layer. update_learning_rate layer e) (layers (st_self p4))\<rparr>\<rparr>"
      using res by simp_all
    have "q = \<lparr> st_self = (st_self p4)\<lparr>layers :=
                  map (\<lambda>layer. update_learning_rate layer e) (layers (st_self p4))\<rparr>,
               st_training_examples = sh, st_random = g1, st_report = st_report p4 \<rparr>"
      unfolding q by (subst p4) simp
    then show ?thesis
      using False o f1 f2 f3 f4 sh rep1 by (simp add: spec_epoch_def)
  qed
qed

lemma epoch_loop_refines:
  "epoch_loop M lc es p = (Inr u, q) \<Longrightarrow> spec_epochs M lc es p = Some q"
proof (induction es arbitrary: p)
  case Nil
  then show ?case by simp
next
  case (Cons e es)
  obtain out p1 where ep: "fit_epoch M lc e p = (out, p1)" by (cases "fit_epoch M lc e p")
  show ?case
  proof (cases out)
    case (Raise x)
    then show ?thesis using Cons.prems ep by simp
  next
    case Break
    then have "q = p1" using Cons.prems ep by simp
    then show ?thesis using fit_epoch_refines[OF ep] Break by simp
  next
    case Continue
    then have "epoch_loop M lc es p1 = (Inr u, q)" using Cons.prems ep by simp
    from Cons.IH[OF this] show ?thesis using fit_epoch_refines[OF ep] Continue by simp
  qed
qed

lemma fit_setup_locals:
  "fst (fit_setup self xs v t m) = Inr lc \<longleftrightarrow> locals_of_call self xs v t m lc"
proof
  assume "fst (fit_setup self xs v t m) = Inr lc"
  then show "locals_of_call self xs v t m lc"
    by (auto simp: fit_setup_def locals_of_call_def compute_num_window_def Let_def
        split: sum.splits if_splits option.splits list.splits)
next
  assume "locals_of_call self xs v t m lc"
  then show "fst (fit_setup self xs v t m) = Inr lc"
    by (cases lc)
      (auto simp: fit_setup_def locals_of_call_def compute_num_window_def Let_def
        split: sum.splits if_splits option.splits list.splits)
qed

lemma locals_of_call_unique:
  assumes "locals_of_call self xs v t m lc" "locals_of_call self xs v t m lc'"
  shows "lc = lc'"
  using assms fit_setup_locals[of self xs v t m lc] fit_setup_locals[of self xs v t m lc']
  by simp

lemma fit_refines:
  assumes "fit M self xs v t m g = (Inr report, st)"
  shows "report = st_report st \<and>
         (\<exists>lc. locals_of_call self xs v t m lc \<and>
               spec_epochs M lc (map int [0..<nat (max_epochs self)]) (spec_fit_start self xs g m)
                 = Some st)"
proof -
  obtain r0 self1 where su: "fit_setup self xs v t m = (r0, self1)"
    by (cases "fit_setup self xs v t m")
  note fr = fit_setup_frame[OF su]
  from assms su obtain lc where lc: "r0 = Inr lc"
    by (cases r0) (auto simp: fit_def)
  have me: "max_epochs self1 = max_epochs self" using fr by simp
  have st0: "\<lparr> st_self = self1, st_training_examples = xs, st_random = g,
               st_report = Report_init (max_epochs self) m \<rparr> = spec_fit_start self xs g m"
    using fr by (simp add: spec_fit_start_def)
  have "fit M self xs v t m g =
          (case epoch_loop M lc (map int [0..<nat (max_epochs self1)])
                  \<lparr> st_self = self1, st_training_examples = xs, st_random = g,
                    st_report = Report_init (max_epochs self) m \<rparr> of
             (Inl e, st) \<Rightarrow> (Inl e, st) | (Inr u, st) \<Rightarrow> (Inr (st_report st), st))"
    by (simp only: fit_def Let_def su lc prod.case sum.case)
  then have lp: "epoch_loop M lc (map int [0..<nat (max_epochs self)]) (spec_fit_start self xs g m)
                   = (Inr (), st) \<and> report = st_report st"
    using assms unfolding me st0
    by (auto split: prod.splits sum.splits)
  have "locals_of_call self xs v t m lc"
    using fit_setup_locals[of self xs v t m lc] su lc by simp
  then show ?thesis
    using lp epoch_loop_refines[of M lc _ _ "()" st] by blast
qed

lemma spec_epoch_records:
  assumes "spec_epoch M lc e p = Some (stop, q)"
  shows "\<exists>err. training_error (st_report q) = training_error (st_report p) @ [(e, err)] \<and>
           map fst (validation_error (st_report q)) =
             map fst (validation_error (st_report p))
               @ (if validation_arrays lc = None then [] else [e]) \<and>
           map fst (test_error (st_report q)) =
             map fst (test_error (st_report p))
               @ (case test_samples lc of Some (a # ts) \<Rightarrow> [e] | _ \<Rightarrow> [])"
proof -
  from assms obtain nn1 err nn2 rep2 nn3 rep3 nn4 rep4 where
    a: "spec_training_loss M lc e (nn1, st_report p) = Some (err, nn2, rep2)"
      "spec_validation M lc e err (nn2, rep2) = Some (nn3, rep3)"
      "spec_test M lc e (nn3, rep3) = Some (nn4, rep4)"
      "st_report q = rep4"
    by (auto simp: spec_epoch_def split: prod.splits option.splits)
  have 1: "training_error rep2 = training_error (st_report p) @ [(e, err)] \<and>
           validation_error rep2 = validation_error (st_report p) \<and>
           test_error rep2 = test_error (st_report p)"
    using a(1)
    by (auto simp: spec_training_loss_def add_training_error_def add_training_accuracy_def
        split: option.splits prod.splits)
  have 2: "training_error rep3 = training_error rep2 \<and>
           map fst (validation_error rep3) =
             map fst (validation_error rep2) @ (if validation_arrays lc = None then [] else [e]) \<and>
           test_error rep3 = test_error rep2"
    using a(2)
    by (auto simp: spec_validation_def add_validation_error_def add_validation_accuracy_def
        split: option.splits prod.splits)
  have 3: "training_error rep4 = training_error rep3 \<and>
           validation_error rep4 = validation_error rep3 \<and>
           map fst (test_error rep4) =
             map fst (test_error rep3)
               @ (case test_samples lc of Some (a # ts) \<Rightarrow> [e] | _ \<Rightarrow> [])"
    using a(3)
    by (auto simp: spec_test_def add_test_error_def
        simp del: spec_predict_each.simps
        split: option.splits prod.splits list.splits)
  show ?thesis using 1 2 3 a(4) by simp
qed

lemma spec_epochs_records:
  assumes "spec_epochs M lc es p = Some q"
  shows "\<exists>new. training_error (st_report q) = training_error (st_report p) @ new \<and>
           map fst (validation_error (st_report q)) =
             map fst (validation_error (st_report p))
               @ (if validation_arrays lc = None then [] else map fst new) \<and>
           map fst (test_error (st_report q)) =
             map fst (test_error (st_report p))
               @ (case test_samples lc of Some (a # ts) \<Rightarrow> map fst new | _ \<Rightarrow> [])"
  using assms
proof (induction es arbitrary: p)
  case Nil
  then show ?case by (auto split: option.splits list.splits)
next
  case (Cons e es)
  from Cons.prems obtain stop p1 where ep: "spec_epoch M lc e p = Some (stop, p1)"
    by (auto split: option.splits)
  from spec_epoch_records[OF ep] obtain err where
    r: "training_error (st_report p1) = training_error (st_report p) @ [(e, err)]"
      "map fst (validation_error (st_report p1)) =
         map fst (validation_error (st_report p))
           @ (if validation_arrays lc = None then [] else [e])"
      "map fst (test_error (st_report p1)) =
         map fst (test_error (st_report p))
           @ (case test_samples lc of Some (a # ts) \<Rightarrow> [e] | _ \<Rightarrow> [])"
    by blast
  show ?case
  proof (cases stop)
    case True
    then have "q = p1" using Cons.prems ep by simp
    then show ?thesis
      using r by (intro exI[of _ "[(e, err)]"]) (auto split: option.splits list.splits)
  next
    case False
    then have "spec_epochs M lc es p1 = Some q" using Cons.prems ep by simp
    from Cons.IH[OF this] obtain new where
      n: "training_error (st_report q) = training_error (st_report p1) @ new"
        "map fst (validation_error (st_report q)) =
           map fst (validation_error (st_report p1))
             @ (if validation_arrays lc = None then [] else map fst new)"
        "map fst (test_error (st_report q)) =
           map fst (test_error (st_report p1))
             @ (case test_samples lc of Some (a # ts) \<Rightarrow> map fst new | _ \<Rightarrow> [])"
      by blast
    show ?thesis
      using r n by (intro exI[of _ "(e, err) # new"]) (auto split: option.splits list.splits)
  qed
qed

lemma fit_records:
  assumes "fit M self xs v t m g = (Inr report, st)"
  shows "map fst (validation_error report) =
           (case v of Some (a # vs) \<Rightarrow> map fst (training_error report) | _ \<Rightarrow> []) \<and>
         map fst (test_error report) =
           (case t of Some (a # ts) \<Rightarrow> map fst (training_error report) | _ \<Rightarrow> [])"
proof -
  from fit_refines[OF assms] obtain lc where
    l: "report = st_report st" "locals_of_call self xs v t m lc"
      "spec_epochs M lc (map int [0..<nat (max_epochs self)]) (spec_fit_start self xs g m) = Some st"
    by blast
  have va: "validation_arrays lc = None \<longleftrightarrow> \<not> (\<exists>a vs. v = Some (a # vs))"
    using l(2) by (auto simp: locals_of_call_def split: option.splits list.splits)
  have ts: "test_samples lc = t" using l(2) by (simp add: locals_of_call_def)
  from spec_epochs_records[OF l(3)] obtain new where
    n: "training_error (st_report st) = new"
      "map fst (validation_error (st_report st)) =
         (if validation_arrays lc = None then [] else map fst new)"
      "map fst (test_error (st_report st)) =
         (case test_samples lc of Some (a # ts) \<Rightarrow> map fst new | _ \<Rightarrow> [])"
    by (auto simp: spec_fit_start_def Report_init_def)
  show ?thesis
    using n va ts l(1) by (auto split: option.splits list.splits)
qed


text \<open>
  C5. For a network whose optimizer is \<open>''SGD''\<close> and every training set, the statements of
  \<open>fit\<close> before the epoch loop leave the network with the batch size equal to the number of
  training samples; when they do not raise, the loop runs with one window and batch ratio
  one. The batch size given at construction has no effect on what \<open>fit\<close> does.
\<close>

theorem fit_SGD_batch_size:
  assumes "optimizer self = ''SGD''"
  shows "batch_size (snd (fit_setup self xs v t m)) = int (length xs) \<and>
         (\<forall>lc. fst (fit_setup self xs v t m) = Inr lc \<longrightarrow>
                num_window lc = 1 \<and> batch_total_samples_ratio lc = 1) \<and>
         fit M (self\<lparr>batch_size := b\<rparr>) xs v t m g = fit M self xs v t m g"
proof -
  obtain r self1 where su: "fit_setup self xs v t m = (r, self1)"
    by (cases "fit_setup self xs v t m")
  note fr = fit_setup_frame[OF su]
  have s1: "self1 = self\<lparr>batch_size := int (length xs)\<rparr>" using fr assms by simp
  have nw: "num_window lc = 1 \<and> batch_total_samples_ratio lc = 1" if "r = Inr lc" for lc
    using fr that s1 by (auto simp: compute_num_window_def split: if_splits)
  have same: "fit_setup (self\<lparr>batch_size := b\<rparr>) xs v t m = fit_setup self xs v t m"
    using assms by (simp add: fit_setup_def)
  show ?thesis
    using su s1 nw same by (simp add: fit_def)
qed

text \<open>
  C6, as amended. When \<open>fit\<close> returns a report, the report is the one built during the call,
  and the call has run the epochs \<open>0, 1, \<dots>\<close> as \<open>spec_epochs\<close> describes them, from the state
  \<open>spec_fit_start\<close> and with the local variables of the call: in every epoch the training
  loss is computed and recorded, then the validation and the test loss when there are such
  samples, then the loss is compared with \<open>min_error\<close>, and only an epoch whose loss is above
  it advances the schedules, by the epoch index; the epoch that meets the check ends the
  loop. In particular: the report records the training loss of the epochs \<open>0, 1, \<dots>\<close> in
  order, at most \<open>max_epochs\<close> of them; every recorded loss but the last is above
  \<open>min_error\<close>, and when fewer than \<open>max_epochs\<close> epochs ran the last one is at most
  \<open>min_error\<close>; a validation loss (a test loss) is recorded for every epoch with a recorded
  training loss, the last one too, when validation (test) samples were given, and for none
  otherwise; and, when the optimizer leaves the schedules alone, the schedule of every layer
  has been advanced by the epoch index of exactly those epochs whose loss was above
  \<open>min_error\<close>.
\<close>

theorem fit_convergence_check_precedes_schedule:
  assumes "fit M self xs v t m g = (Inr report, st)"
  shows "report = st_report st \<and>
         (\<exists>lc. locals_of_call self xs v t m lc \<and>
               spec_epochs M lc (map int [0..<nat (max_epochs self)]) (spec_fit_start self xs g m)
                 = Some st) \<and>
         length (training_error report) \<le> nat (max_epochs self) \<and>
         map fst (training_error report) = map int [0..<length (training_error report)] \<and>
         (\<forall>(e, err) \<in> set (butlast (training_error report)). \<not> err \<le> m) \<and>
         (length (training_error report) < nat (max_epochs self) \<longrightarrow>
            training_error report \<noteq> [] \<and> snd (last (training_error report)) \<le> m) \<and>
         map fst (validation_error report) =
           (case v of Some (a # vs) \<Rightarrow> map fst (training_error report) | _ \<Rightarrow> []) \<and>
         map fst (test_error report) =
           (case t of Some (a # ts) \<Rightarrow> map fst (training_error report) | _ \<Rightarrow> []) \<and>
         (optimizer_keeps_schedules M \<longrightarrow>
            map learning_rates (layers (st_self st)) =
              fold (\<lambda>e. map (advance_schedule e))
                (map fst (filter (\<lambda>(e, err). \<not> err \<le> m) (training_error report)))
                (map learning_rates (layers self)))"
proof -
  from fit_summary[OF assms] obtain k lc self1 where
    k: "k \<le> nat (max_epochs self)" "report = st_report st" "length (training_error report) = k"
      "fit_setup self xs v t m = (Inr lc, self1)"
      "epochs_summary M lc (map int [0..<nat (max_epochs self)])
         \<lparr> st_self = self1, st_training_examples = xs, st_random = g,
           st_report = Report_init (max_epochs self) m \<rparr> st (training_error report)"
    by auto
  note fr = fit_setup_frame[OF k(4)]
  have tk: "take k (map int [0..<nat (max_epochs self)]) = map int [0..<k]"
    using k(1) by (simp add: take_map)
  have old: "length (training_error report) \<le> nat (max_epochs self) \<and>
         map fst (training_error report) = map int [0..<length (training_error report)] \<and>
         (\<forall>(e, err) \<in> set (butlast (training_error report)). \<not> err \<le> m) \<and>
         (length (training_error report) < nat (max_epochs self) \<longrightarrow>
            training_error report \<noteq> [] \<and> snd (last (training_error report)) \<le> m) \<and>
         (optimizer_keeps_schedules M \<longrightarrow>
            map learning_rates (layers (st_self st)) =
              fold (\<lambda>e. map (advance_schedule e))
                (map fst (filter (\<lambda>(e, err). \<not> err \<le> m) (training_error report)))
                (map learning_rates (layers self)))"
    using k(1,2,3,5) fr tk
    by (simp add: epochs_summary_def schedules_def)
  show ?thesis
    using old fit_refines[OF assms] fit_records[OF assms] by blast
qed

text \<open>
  C10. However \<open>fit\<close> ends, the caller's list of training samples and the random generator
  are left as \<open>k\<close> successive shuffles of the list itself leave them, one for every epoch
  begun: with a shuffle that permutes, the final list is a permutation of the original one;
  when the call reaches its epoch loop and \<open>max_epochs\<close> is positive, at least one shuffle
  has been done, also when the first epoch raises; and when \<open>fit\<close> returns a report, \<open>k\<close> is
  the number of recorded epochs. When \<open>fit\<close> returns a report, the call has run its epochs as
  \<open>spec_epochs\<close> describes them, from the state \<open>spec_fit_start\<close>, which holds the list as the
  caller gave it, and with the local variables \<open>lc\<close> of the call, whose arrays
  \<open>inputs_training\<close> and \<open>targets_training\<close> are those of the list in its original order:
  every epoch first replaces the list by its shuffle, takes its windows from the shuffled
  list, and records as training loss the loss of the prediction for \<open>inputs_training lc\<close>
  against \<open>targets_training lc\<close>, the same arrays in every epoch.
\<close>

theorem fit_shuffles_callers_list:
  assumes "fit M self xs v t m g = (r, st)"
  shows "(\<exists>k \<le> nat (max_epochs self).
           (st_training_examples st, st_random st) = (shuffle_step M ^^ k) (xs, g) \<and>
           (shuffle_permutes M \<longrightarrow> mset (st_training_examples st) = mset xs) \<and>
           ((\<exists>lc. locals_of_call self xs v t m lc) \<and> 0 < max_epochs self \<longrightarrow> 1 \<le> k) \<and>
           (\<forall>report. r = Inr report \<longrightarrow> k = length (training_error report))) \<and>
         (\<forall>report. r = Inr report \<longrightarrow>
            report = st_report st \<and>
            (\<exists>lc. locals_of_call self xs v t m lc \<and>
                  np_array (map fst xs) = Inr (inputs_training lc) \<and>
                  np_array (map snd xs) = Inr (targets_training lc) \<and>
                  spec_epochs M lc (map int [0..<nat (max_epochs self)])
                    (spec_fit_start self xs g m) = Some st))"
proof -
  from fit_summary[OF assms] obtain k where
    k: "k \<le> nat (max_epochs self)"
      "(st_training_examples st, st_random st) = (shuffle_step M ^^ k) (xs, g)"
      "(\<exists>lc. fst (fit_setup self xs v t m) = Inr lc) \<and> 0 < max_epochs self \<longrightarrow> 1 \<le> k"
      "\<forall>report. r = Inr report \<longrightarrow> length (training_error report) = k"
    by blast
  have ms: "mset (st_training_examples st) = mset xs" if "shuffle_permutes M"
    using shuffle_steps_mset[OF that, of k xs g] k(2) by (metis fst_conv)
  have k1: "(\<exists>lc. locals_of_call self xs v t m lc) \<and> 0 < max_epochs self \<longrightarrow> 1 \<le> k"
    using k(3) fit_setup_locals[of self xs v t m] by blast
  have first: "\<exists>k \<le> nat (max_epochs self).
           (st_training_examples st, st_random st) = (shuffle_step M ^^ k) (xs, g) \<and>
           (shuffle_permutes M \<longrightarrow> mset (st_training_examples st) = mset xs) \<and>
           ((\<exists>lc. locals_of_call self xs v t m lc) \<and> 0 < max_epochs self \<longrightarrow> 1 \<le> k) \<and>
           (\<forall>report. r = Inr report \<longrightarrow> k = length (training_error report))"
    using k(1,2,4) ms k1 by (intro exI[of _ k]) auto
  have second: "report = st_report st \<and>
            (\<exists>lc. locals_of_call self xs v t m lc \<and>
                  np_array (map fst xs) = Inr (inputs_training lc) \<and>
                  np_array (map snd xs) = Inr (targets_training lc) \<and>
                  spec_epochs M lc (map int [0..<nat (max_epochs self)])
                    (spec_fit_start self xs g m) = Some st)"
    if "r = Inr report" for report
  proof -
    from fit_refines[OF assms[unfolded that]] obtain lc where
      l: "report = st_report st" "locals_of_call self xs v t m lc"
        "spec_epochs M lc (map int [0..<nat (max_epochs self)]) (spec_fit_start self xs g m)
           = Some st"
      by blast
    have "np_array (map fst xs) = Inr (inputs_training lc) \<and>
          np_array (map snd xs) = Inr (targets_training lc)"
      using l(2) by (simp add: locals_of_call_def)
    then show ?thesis using l by blast
  qed
  show ?thesis using first second by blast
qed

lemma demo_optimizer_keeps_schedules: "optimizer_keeps_schedules demo_modules"
  by (auto simp: optimizer_keeps_schedules_def demo_modules_def demo_back_propagation_def
      split: if_splits)

lemma demo_shuffle_permutes: "shuffle_permutes demo_modules"
  by (simp add: shuffle_permutes_def demo_modules_def)

lemma compute_num_window_floor:
  assumes "0 < bs" "0 \<le> n" "\<not> bs dvd n" "compute_num_window n bs = Inr nw"
  shows "nw * bs < n \<and> n < (nw + 1) * bs"
proof -
  have nw: "nw = n div bs" using assms(1,4) by (simp add: compute_num_window_def)
  have m: "n mod bs \<noteq> 0" using assms(3) by (simp add: dvd_eq_mod_eq_0)
  have r: "0 \<le> n mod bs" "n mod bs < bs" using assms(1) by simp_all
  have d: "n = n div bs * bs + n mod bs" by simp
  have "n div bs * bs < n" using m r(1) d by linarith
  moreover have "(n div bs + 1) * bs = n div bs * bs + bs"
    by (simp add: distrib_right)
  then have "n < (n div bs + 1) * bs"
    using r(2) d by linarith
  ultimately show ?thesis unfolding nw by simp
qed

text \<open>
  C4. With five training samples and batch size two (and an optimizer other than
  \<open>''SGD''\<close>), the number of windows is \<open>5 // 2 = 2\<close>, not the ceiling of \<open>5 / 2\<close>. In the one
  epoch of this run the list is shuffled to the samples \<open>4, 3, 2, 1, 0\<close> (named by their first
  input), and the optimizer is given the windows \<open>4, 3\<close> and \<open>2, 1\<close>, which it records
  behind the two entries that \<open>topology\<close> had: the last sample of the shuffled list is in
  no window.
\<close>

theorem fit_drops_trailing_samples:
  "compute_num_window 5 2 = Inr 2 \<and>
   map (\<lambda>s. \<lfloor>hd (fst s)\<rfloor>) (st_training_examples (snd (demo_fit ''batch'' 2 1 0))) = [4, 3, 2, 1, 0] \<and>
   drop 2 (topology (st_self (snd (demo_fit ''batch'' 2 1 0)))) = [4, 3, 2, 1]"
  by code_simp

text \<open>
  The statement of C5 on the network built with batch size two (or seven) and the five
  samples.
\<close>

theorem fit_SGD_batch_size_witness:
  "optimizer (demo_network ''SGD'' 2) = ''SGD'' \<and>
   batch_size (snd (fit_setup (demo_network ''SGD'' 2) demo_samples None None 0)) = 5 \<and>
   map_sum id num_window (fst (fit_setup (demo_network ''SGD'' 2) demo_samples None None 0)) = Inr 1 \<and>
   fit demo_modules ((demo_network ''SGD'' 2)\<lparr>batch_size := 7\<rparr>) demo_samples None None 0 () =
     fit demo_modules (demo_network ''SGD'' 2) demo_samples None None 0 ()"
proof -
  have h: "optimizer (demo_network ''SGD'' 2) = ''SGD''"
    by (simp add: demo_network_def)
  have len: "int (length demo_samples) = 5"
    by (simp add: demo_samples_def)
  obtain lc where ok: "fst (fit_setup (demo_network ''SGD'' 2) demo_samples None None 0) = Inr lc"
    by (simp add: fit_setup_def demo_network_def demo_samples_def compute_num_window_def np_array_def)
  show ?thesis
    using fit_SGD_batch_size[OF h, of demo_samples None None 0 demo_modules 7 "()"] ok h len
    by simp
qed

lemma fit_report_is_state_report:
  assumes "fst (fit M self xs v t m g) = Inr report"
  shows "report = st_report (snd (fit M self xs v t m g))"
proof -
  have "fit M self xs v t m g = (Inr report, snd (fit M self xs v t m g))"
    using assms by (simp add: prod_eq_iff)
  from fit_summary[OF this] show ?thesis by blast
qed

lemma demo_fit_converges:
  "map_sum id training_error (fst (demo_fit ''batch'' 2 2 1)) = Inr [(0, 1)]"
  by code_simp

text \<open>
  C6, as stated, fails: in this run epoch \<open>0\<close> computes the training loss \<open>1\<close>, which is at
  most the \<open>min_error\<close> of \<open>1\<close>, and \<open>fit\<close> returns with the layer's schedule never advanced,
  whereas advancing it by the epoch index before the check would have recorded epoch \<open>0\<close>.
\<close>

theorem fit_schedule_advanced_before_check_counterexample:
  "map_sum id training_error (fst (demo_fit ''batch'' 2 2 1)) = Inr [(0, 1)] \<and>
   map (lr_state \<circ> learning_rates) (layers (st_self (snd (demo_fit ''batch'' 2 2 1)))) = [[]] \<and>
   map (lr_state \<circ> advance_schedule 0 \<circ> learning_rates) (layers (demo_network ''batch'' 2)) = [[0]]"
  by code_simp

lemma demo_fit_runs_on:
  "map_sum id training_error (fst (demo_fit ''batch'' 2 2 0)) = Inr [(0, 1), (1, 1)]"
  by code_simp

lemma demo_fit_validated_converges:
  "map_sum id (\<lambda>r. (training_error r, validation_error r)) (fst (demo_fit_validated 1))
     = Inr ([(0, 1)], [(0, 24)])"
  by code_simp

lemma demo_locals_validated_of_call:
  "locals_of_call (demo_network ''batch'' 2) demo_samples (Some demo_validation) None 1
     demo_locals_validated"
  by (simp add: locals_of_call_def demo_network_def demo_samples_def demo_validation_def
      demo_locals_validated_def demo_locals_def np_array_def)

lemma demo_epochs: "map int [0..<nat (max_epochs (demo_network opt bs))] = [0, 1]"
  by (simp add: demo_network_def eval_nat_numeral)

text \<open>
  The statement of C6 on two runs of two epochs at most. With \<open>min_error\<close> one and a
  validation sample, the first epoch meets the check: the run is that of \<open>spec_epochs\<close>, the
  training loss \<open>1\<close> and the validation loss \<open>24\<close> of epoch \<open>0\<close> are recorded, and no
  schedule is advanced. With \<open>min_error\<close> zero both epochs run and the schedule is advanced
  by the epochs \<open>0\<close> and \<open>1\<close>.
\<close>

theorem fit_convergence_check_precedes_schedule_witness:
  "demo_fit_validated 1 =
     (Inr (st_report (snd (demo_fit_validated 1))), snd (demo_fit_validated 1)) \<and>
   locals_of_call (demo_network ''batch'' 2) demo_samples (Some demo_validation) None 1
     demo_locals_validated \<and>
   spec_epochs demo_modules demo_locals_validated [0, 1]
     (spec_fit_start (demo_network ''batch'' 2) demo_samples () 1)
       = Some (snd (demo_fit_validated 1)) \<and>
   training_error (st_report (snd (demo_fit_validated 1))) = [(0, 1)] \<and>
   validation_error (st_report (snd (demo_fit_validated 1))) = [(0, 24)] \<and>
   map learning_rates (layers (st_self (snd (demo_fit_validated 1)))) =
     map learning_rates (layers (demo_network ''batch'' 2)) \<and>
   optimizer_keeps_schedules demo_modules \<and>
   demo_fit ''batch'' 2 2 0 =
     (Inr (st_report (snd (demo_fit ''batch'' 2 2 0))), snd (demo_fit ''batch'' 2 2 0)) \<and>
   training_error (st_report (snd (demo_fit ''batch'' 2 2 0))) = [(0, 1), (1, 1)] \<and>
   map lr_state (map learning_rates (layers (st_self (snd (demo_fit ''batch'' 2 2 0))))) = [[0, 1]]"
proof -
  let ?nn = "(demo_network ''batch'' 2)\<lparr>max_epochs := 2\<rparr>"
  have ls: "map learning_rates (layers ?nn) = map learning_rates (layers (demo_network ''batch'' 2))"
    by simp
  obtain r1 where r1: "fst (demo_fit_validated 1) = Inr r1"
    using demo_fit_validated_converges by (cases "fst (demo_fit_validated 1)") auto
  then have rep1: "r1 = st_report (snd (demo_fit_validated 1))"
    unfolding demo_fit_validated_def by (rule fit_report_is_state_report)
  have run1: "fit demo_modules (demo_network ''batch'' 2) demo_samples (Some demo_validation) None 1 ()
                = (Inr r1, snd (demo_fit_validated 1))"
    using r1 by (simp add: demo_fit_validated_def prod_eq_iff)
  have te1: "training_error r1 = [(0, 1)]" and ve1: "validation_error r1 = [(0, 24)]"
    using demo_fit_validated_converges r1 by simp_all
  note c1 = fit_convergence_check_precedes_schedule[OF run1]
  have a1: "demo_fit_validated 1 =
     (Inr (st_report (snd (demo_fit_validated 1))), snd (demo_fit_validated 1))"
    using r1 rep1 by (simp add: prod_eq_iff)
  from c1[THEN conjunct2, THEN conjunct1] obtain lc where
    lc: "locals_of_call (demo_network ''batch'' 2) demo_samples (Some demo_validation) None 1 lc"
      "spec_epochs demo_modules lc (map int [0..<nat (max_epochs (demo_network ''batch'' 2))])
         (spec_fit_start (demo_network ''batch'' 2) demo_samples () 1)
           = Some (snd (demo_fit_validated 1))"
    by blast
  have "lc = demo_locals_validated"
    using lc(1) demo_locals_validated_of_call by (rule locals_of_call_unique)
  then have a2: "spec_epochs demo_modules demo_locals_validated [0, 1]
     (spec_fit_start (demo_network ''batch'' 2) demo_samples () 1)
       = Some (snd (demo_fit_validated 1))"
    using lc(2) unfolding demo_epochs by simp
  have a3: "training_error (st_report (snd (demo_fit_validated 1))) = [(0, 1)]"
    using te1 rep1 by simp
  have a4: "validation_error (st_report (snd (demo_fit_validated 1))) = [(0, 24)]"
    using ve1 rep1 by simp
  note s1 = c1[THEN conjunct2, THEN conjunct2, THEN conjunct2, THEN conjunct2, THEN conjunct2,
      THEN conjunct2, THEN conjunct2, THEN conjunct2, THEN mp, OF demo_optimizer_keeps_schedules]
  have a5: "map learning_rates (layers (st_self (snd (demo_fit_validated 1)))) =
     map learning_rates (layers (demo_network ''batch'' 2))"
    using s1 te1 by simp
  obtain r2 where r2: "fst (demo_fit ''batch'' 2 2 0) = Inr r2"
    using demo_fit_runs_on by (cases "fst (demo_fit ''batch'' 2 2 0)") auto
  then have rep2: "r2 = st_report (snd (demo_fit ''batch'' 2 2 0))"
    unfolding demo_fit_def by (rule fit_report_is_state_report)
  have run2: "fit demo_modules ?nn demo_samples None None 0 () = (Inr r2, snd (demo_fit ''batch'' 2 2 0))"
    using r2 by (simp add: demo_fit_def prod_eq_iff)
  have te2: "training_error r2 = [(0, 1), (1, 1)]"
    using demo_fit_runs_on r2 by simp
  note c2 = fit_convergence_check_precedes_schedule[OF run2]
  note s2 = c2[THEN conjunct2, THEN conjunct2, THEN conjunct2, THEN conjunct2, THEN conjunct2,
      THEN conjunct2, THEN conjunct2, THEN conjunct2, THEN mp, OF demo_optimizer_keeps_schedules]
  have b1: "demo_fit ''batch'' 2 2 0 =
     (Inr (st_report (snd (demo_fit ''batch'' 2 2 0))), snd (demo_fit ''batch'' 2 2 0))"
    using r2 rep2 by (simp add: prod_eq_iff)
  have b2: "training_error (st_report (snd (demo_fit ''batch'' 2 2 0))) = [(0, 1), (1, 1)]"
    using te2 rep2 by simp
  have "map learning_rates (layers (st_self (snd (demo_fit ''batch'' 2 2 0)))) =
          map (advance_schedule 1) (map (advance_schedule 0)
            (map learning_rates (layers (demo_network ''batch'' 2))))"
    using s2 te2 unfolding ls by simp
  then have b3: "map lr_state (map learning_rates (layers (st_self (snd (demo_fit ''batch'' 2 2 0)))))
               = [[0, 1]]"
    by (simp add: demo_network_def demo_layer_def advance_schedule_def)
  show ?thesis
    by (intro conjI a1 demo_locals_validated_of_call a2 a3 a4 a5 demo_optimizer_keeps_schedules
        b1 b2 b3)
qed

lemma demo_locals_of_call:
  "locals_of_call (demo_network ''batch'' 2) demo_samples None None 1 demo_locals"
  by (simp add: locals_of_call_def demo_network_def demo_samples_def demo_locals_def np_array_def)

lemma demo_state_start:
  "spec_fit_start (demo_network ''batch'' 2) demo_samples () 1 = demo_state"
  by (simp add: spec_fit_start_def demo_state_def demo_network_def)

lemma demo_fit_examples:
  "map (\<lambda>s. \<lfloor>hd (fst s)\<rfloor>) (st_training_examples (snd (demo_fit ''batch'' 2 2 1))) = [4, 3, 2, 1, 0] \<and>
   drop 2 (topology (st_self (snd (demo_fit ''batch'' 2 2 1)))) = [4, 3, 2, 1] \<and>
   fst (predict (st_self (snd (demo_fit ''batch'' 2 2 1))) (inputs_training demo_locals))
     = Inr (Mat 1 [[1], [3], [5], [7], [9]])"
  by code_simp

lemma demo_fit_reverses:
  "st_training_examples (snd (demo_fit ''batch'' 2 2 1)) = rev demo_samples"
  by code_simp

text \<open>
  The statement of C10 on the run with \<open>min_error\<close> one, which ends in its first epoch: the
  caller's list is left reversed, as the one shuffle leaves it; the run is that of
  \<open>spec_epochs\<close> with the arrays of the list in its original order; the windows given to the
  optimizer are the samples \<open>4, 3\<close> and \<open>2, 1\<close> of the reversed list, and the recorded
  loss \<open>1\<close> is the first entry of the prediction for the arrays in the original order (for
  the reversed list it would be \<open>9\<close>).
\<close>

theorem fit_shuffles_callers_list_witness:
  "shuffle_permutes demo_modules \<and>
   demo_fit ''batch'' 2 2 1 = (fst (demo_fit ''batch'' 2 2 1), snd (demo_fit ''batch'' 2 2 1)) \<and>
   st_training_examples (snd (demo_fit ''batch'' 2 2 1)) = rev demo_samples \<and>
   mset (st_training_examples (snd (demo_fit ''batch'' 2 2 1))) = mset demo_samples \<and>
   map_sum id training_error (fst (demo_fit ''batch'' 2 2 1)) = Inr [(0, 1)] \<and>
   locals_of_call (demo_network ''batch'' 2) demo_samples None None 1 demo_locals \<and>
   0 < max_epochs (demo_network ''batch'' 2) \<and>
   inputs_training demo_locals = Mat 2 [[0, 0], [1, 0], [2, 0], [3, 0], [4, 0]] \<and>
   spec_epochs demo_modules demo_locals [0, 1] demo_state = Some (snd (demo_fit ''batch'' 2 2 1)) \<and>
   drop 2 (topology (st_self (snd (demo_fit ''batch'' 2 2 1)))) = [4, 3, 2, 1] \<and>
   fst (predict (st_self (snd (demo_fit ''batch'' 2 2 1))) (inputs_training demo_locals))
     = Inr (Mat 1 [[1], [3], [5], [7], [9]])"
proof -
  have nn: "(demo_network ''batch'' 2)\<lparr>max_epochs := 2\<rparr> = demo_network ''batch'' 2"
    by (simp add: demo_network_def)
  have run: "fit demo_modules (demo_network ''batch'' 2) demo_samples None None 1 ()
               = (fst (demo_fit ''batch'' 2 2 1), snd (demo_fit ''batch'' 2 2 1))"
    by (simp add: demo_fit_def nn)
  note inst = fit_shuffles_callers_list[OF run]
  from inst[THEN conjunct1] obtain k where
    k: "shuffle_permutes demo_modules \<longrightarrow>
          mset (st_training_examples (snd (demo_fit ''batch'' 2 2 1))) = mset demo_samples"
    by blast
  have ms: "mset (st_training_examples (snd (demo_fit ''batch'' 2 2 1))) = mset demo_samples"
    using k demo_shuffle_permutes by simp
  obtain r1 where r1: "fst (demo_fit ''batch'' 2 2 1) = Inr r1"
    using demo_fit_converges by (cases "fst (demo_fit ''batch'' 2 2 1)") auto
  from inst[THEN conjunct2, rule_format, OF r1] obtain lc where
    lc: "locals_of_call (demo_network ''batch'' 2) demo_samples None None 1 lc"
      "spec_epochs demo_modules lc (map int [0..<nat (max_epochs (demo_network ''batch'' 2))])
         (spec_fit_start (demo_network ''batch'' 2) demo_samples () 1)
           = Some (snd (demo_fit ''batch'' 2 2 1))"
    by blast
  have "lc = demo_locals"
    using lc(1) demo_locals_of_call by (rule locals_of_call_unique)
  then have sp: "spec_epochs demo_modules demo_locals [0, 1] demo_state
                   = Some (snd (demo_fit ''batch'' 2 2 1))"
    using lc(2) unfolding demo_epochs demo_state_start by simp
  have pc: "demo_fit ''batch'' 2 2 1 = (fst (demo_fit ''batch'' 2 2 1), snd (demo_fit ''batch'' 2 2 1))"
    by simp
  have it: "inputs_training demo_locals = Mat 2 [[0, 0], [1, 0], [2, 0], [3, 0], [4, 0]]"
    by (simp add: demo_locals_def)
  have me: "0 < max_epochs (demo_network ''batch'' 2)"
    by (simp add: demo_network_def)
  show ?thesis
    by (intro conjI demo_shuffle_permutes pc demo_fit_reverses ms demo_fit_converges
        demo_locals_of_call me it sp
        demo_fit_examples[THEN conjunct2, THEN conjunct1]
        demo_fit_examples[THEN conjunct2, THEN conjunct2])
qed

end
